theory Spec2Isabelle
  imports Complex_Main "HOL-Library.Word"
begin

unbundle bit_operations_syntax

section \<open>The Myrtille bridge of the FreeRDP Windows client (wf\_myrtille.cpp)\<close>

text \<open>
  A shallow embedding of \<^verbatim>\<open>client/Windows/wf_myrtille.cpp\<close>: the session state, the
  inputs-pipe command reader and dispatcher, the region throttle, the encoding pipeline and
  the framing of messages on the updates pipe.

  Conventions. A C \<^verbatim>\<open>int\<close> or \<^verbatim>\<open>LONG\<close> is an \<^typ>\<open>int\<close>; the two atomic counters
  wrap on increment (\<open>wrap32\<close>). A byte is an \<^typ>\<open>8 word\<close>, a \<^verbatim>\<open>wchar_t\<close> a
  \<^typ>\<open>16 word\<close>. A C++ exception that nothing catches (the file has no handler) is a
  \<open>fault\<close>, returned as \<open>Inl\<close>. What a pipe has received is the list of the buffers
  handed to \<^verbatim>\<open>WriteFile\<close>. Calls into FreeRDP, GDI+ and libwebp are kept as values of an
  environment record: their code is not part of this file. Memory allocation and the
  creation of streams are taken to succeed. Writes to the log, the audio pipe and the
  forwarding of the server's clipboard and print jobs are not modelled.
\<close>

subsection \<open>Machine integers\<close>

type_synonym byte = "8 word"
type_synonym wchar = "16 word"

definition INT_MAX :: int where
  "INT_MAX = 2147483647"

definition INT_MIN :: int where
  "INT_MIN = - 2147483648"

text \<open>Two's complement wrap-around of a 32-bit signed value.\<close>

definition wrap32 :: "int \<Rightarrow> int" where
  "wrap32 x = (x + 2147483648) mod 4294967296 - 2147483648"

text \<open>C's \<^verbatim>\<open>/\<close> and \<^verbatim>\<open>%\<close> on \<^verbatim>\<open>int\<close> truncate towards zero.\<close>

definition c_div :: "int \<Rightarrow> int \<Rightarrow> int" where
  "c_div a b = sgn a * sgn b * (\<bar>a\<bar> div \<bar>b\<bar>)"

definition c_mod :: "int \<Rightarrow> int \<Rightarrow> int" where
  "c_mod a b = a - b * c_div a b"

datatype fault =
    invalid_argument      \<comment> \<open>\<^verbatim>\<open>std::invalid_argument\<close>, from \<^verbatim>\<open>std::stoi\<close>\<close>
  | out_of_range          \<comment> \<open>\<^verbatim>\<open>std::out_of_range\<close>, from \<^verbatim>\<open>std::stoi\<close> and \<^verbatim>\<open>substr\<close>\<close>
  | divide_by_zero        \<comment> \<open>integer division by zero\<close>
  | null_pointer          \<comment> \<open>a null pointer handed to a constructor or a call\<close>

subsection \<open>Enumerations\<close>

datatype COMMAND =
    SEND_SERVER_ADDRESS
  | SEND_VM_GUID
  | SEND_USER_DOMAIN
  | SEND_USER_NAME
  | SEND_USER_PASSWORD
  | SEND_START_PROGRAM
  | CONNECT_CLIENT
  | SEND_BROWSER_RESIZE
  | SEND_BROWSER_PULSE
  | SEND_KEY_UNICODE
  | SEND_KEY_SCANCODE
  | SEND_MOUSE_MOVE
  | SEND_MOUSE_LEFT_BUTTON
  | SEND_MOUSE_MIDDLE_BUTTON
  | SEND_MOUSE_RIGHT_BUTTON
  | SEND_MOUSE_WHEEL_UP
  | SEND_MOUSE_WHEEL_DOWN
  | SET_SCALE_DISPLAY
  | SET_RECONNECT_SESSION
  | SET_IMAGE_ENCODING
  | SET_IMAGE_QUALITY
  | SET_IMAGE_QUANTITY
  | SET_AUDIO_FORMAT
  | SET_AUDIO_BITRATE
  | SET_SCREENSHOT_CONFIG
  | START_TAKING_SCREENSHOTS
  | STOP_TAKING_SCREENSHOTS
  | TAKE_SCREENSHOT
  | REQUEST_FULLSCREEN_UPDATE
  | SEND_LOCAL_CLIPBOARD
  | CLOSE_CLIENT

text \<open>
  \<^verbatim>\<open>enum class COMMAND\<close> numbers its values from \<^verbatim>\<open>SEND_SERVER_ADDRESS = 0\<close>: a
  value-initialised \<^verbatim>\<open>COMMAND\<close> is the one numbered 0.
\<close>

definition COMMAND_zero :: COMMAND where
  "COMMAND_zero = SEND_SERVER_ADDRESS"

text \<open>\<^verbatim>\<open>IMAGE_ENCODING\<close>, \<^verbatim>\<open>IMAGE_FORMAT\<close>, \<^verbatim>\<open>IMAGE_QUALITY\<close> and \<^verbatim>\<open>AUDIO_FORMAT\<close>
  are stored in \<^verbatim>\<open>int\<close> fields; the model keeps the integers and names the values.\<close>

definition IMAGE_ENCODING_AUTO :: int where "IMAGE_ENCODING_AUTO = 0"
definition IMAGE_ENCODING_PNG :: int where "IMAGE_ENCODING_PNG = 1"
definition IMAGE_ENCODING_JPEG :: int where "IMAGE_ENCODING_JPEG = 2"
definition IMAGE_ENCODING_WEBP :: int where "IMAGE_ENCODING_WEBP = 3"

definition IMAGE_FORMAT_CUR :: int where "IMAGE_FORMAT_CUR = 0"
definition IMAGE_FORMAT_PNG :: int where "IMAGE_FORMAT_PNG = 1"
definition IMAGE_FORMAT_JPEG :: int where "IMAGE_FORMAT_JPEG = 2"
definition IMAGE_FORMAT_WEBP :: int where "IMAGE_FORMAT_WEBP = 3"

definition IMAGE_QUALITY_LOW :: int where "IMAGE_QUALITY_LOW = 10"
definition IMAGE_QUALITY_MEDIUM :: int where "IMAGE_QUALITY_MEDIUM = 25"
definition IMAGE_QUALITY_HIGH :: int where "IMAGE_QUALITY_HIGH = 50"
definition IMAGE_QUALITY_HIGHER :: int where "IMAGE_QUALITY_HIGHER = 75"
definition IMAGE_QUALITY_HIGHEST :: int where "IMAGE_QUALITY_HIGHEST = 100"

definition AUDIO_FORMAT_MP3 :: int where "AUDIO_FORMAT_MP3 = 2"

definition IMAGE_COUNT_SAMPLING_RATE :: int where "IMAGE_COUNT_SAMPLING_RATE = 100"

subsection \<open>Session state\<close>

record RECT =
  rect_left :: int
  rect_top :: int
  rect_right :: int
  rect_bottom :: int

text \<open>A GDI+ bitmap: its size and its 32-bit ARGB pixels, row by row.\<close>

record bitmap =
  bmp_width :: nat
  bmp_height :: nat
  bmp_bits :: "32 word list"

text \<open>What the bridge asks of FreeRDP, other than writing to its pipes.\<close>

datatype ptr_flag =
    PTR_FLAGS_MOVE | PTR_FLAGS_DOWN | PTR_FLAGS_BUTTON1 | PTR_FLAGS_BUTTON2
  | PTR_FLAGS_BUTTON3 | PTR_FLAGS_WHEEL | PTR_FLAGS_WHEEL_NEGATIVE | PTR_ROTATION nat

datatype kbd_flag = KBD_FLAGS_DOWN | KBD_FLAGS_RELEASE | KBD_FLAGS_EXTENDED

datatype effect =
    UnicodeKeyboardEvent "kbd_flag list" int
  | KeyboardEvent "kbd_flag list" int
  | MouseEvent "ptr_flag list" int int
  | wf_client_thread              \<comment> \<open>\<^verbatim>\<open>CreateThread\<close> of the session engine\<close>
  | MonitorReady                  \<comment> \<open>the clipboard channel's invalidation\<close>
  | takeScreenshot_saved int      \<comment> \<open>a screenshot file written, in the given format\<close>

text \<open>The fields of \<^verbatim>\<open>rdpSettings\<close> that this file reads or writes.\<close>

record rdpSettings =
  MyrtilleSessionId :: "string option"
  DesktopWidth :: int
  DesktopHeight :: int
  ServerHostname :: "string option"
  ServerPort :: int
  VmConnectMode :: bool
  NegotiateSecurityLayer :: bool
  SendPreconnectionPdu :: bool
  PreconnectionBlob :: "string option"
  Domain' :: "string option"
  Username :: "string option"
  Password :: "string option"
  AlternateShell :: "string option"

text \<open>
  \<^verbatim>\<open>struct wf_myrtille\<close>. \<open>updatesPipe\<close> holds what has been written to the updates
  pipe; \<open>updatesPipeBroken\<close> says that \<^verbatim>\<open>WriteFile\<close> on the updates pipe fails.
  \<open>commandMap\<close> is the file's global \<^verbatim>\<open>std::map\<close>. The aspect ratio is a \<^verbatim>\<open>float\<close>,
  of the type \<open>'f\<close> of the environment's floating point unit.
\<close>

record 'f wf_myrtille =
  updatesPipe :: "byte list list"
  updatesPipeBroken :: bool
  commandMap :: "string \<rightharpoonup> COMMAND"
  processInputs :: bool
  imageEncoding :: int
  imageQuality :: int
  imageQuantity :: int
  imageCount :: int
  imageIdx :: int
  imageBuffer :: RECT
  scaleDisplay :: bool
  clientWidth :: int
  clientHeight :: int
  aspectRatio :: 'f
  audioFormat :: int
  audioBitrate :: int
  screenshotIntervalSecs :: int
  screenshotFormat :: int
  screenshotPath :: string
  screenshotEnabled :: bool
  clipboardText :: "wchar list"

text \<open>
  \<^verbatim>\<open>wfContext\<close>: the settings, whether \<^verbatim>\<open>wfc->primary\<close> has a device context, whether
  the clipboard channel and the input callbacks are there, the bridge's state, and the
  calls made into FreeRDP so far.
\<close>

record 'f wfContext =
  settings :: rdpSettings
  primary_hdc :: bool
  cliprdr :: bool
  input_UnicodeKeyboardEvent :: bool
  input_KeyboardEvent :: bool
  input_MouseEvent :: bool
  myrtille :: "'f wf_myrtille"
  effects :: "effect list"

text \<open>
  The environment: single-precision floating point, the codecs, screen capture and the
  FreeRDP helpers. A codec gives the bytes its \<^verbatim>\<open>Save\<close> left in the stream; the code
  reads no status, so a failed encoding is one that left the stream empty. \<open>fresh_byte\<close>
  is what a byte of an array from \<^verbatim>\<open>new byte[n]\<close> holds before it is written.
\<close>

record 'f env =
  float_of_int :: "int \<Rightarrow> 'f"
  float_div :: "'f \<Rightarrow> 'f \<Rightarrow> 'f"
  float_mul :: "'f \<Rightarrow> 'f \<Rightarrow> 'f"
  float_eq :: "'f \<Rightarrow> 'f \<Rightarrow> bool"
  float_less :: "'f \<Rightarrow> 'f \<Rightarrow> bool"
  int_of_float :: "'f \<Rightarrow> int"
  encodePNG :: "bitmap \<Rightarrow> byte list"
  encodeJPEG :: "bitmap \<Rightarrow> int \<Rightarrow> byte list"
  encodeWEBP :: "bitmap \<Rightarrow> int \<Rightarrow> byte list"
  StretchBlt :: "int \<Rightarrow> int \<Rightarrow> int \<Rightarrow> int \<Rightarrow> int \<Rightarrow> int \<Rightarrow> bitmap"
  cursor_bitmap :: bitmap
  cursor_hotspot :: "int \<times> int"
  freerdp_parse_username :: "string \<Rightarrow> string option \<times> string option"
  ConvertToUnicode :: "string \<Rightarrow> wchar list option"
  fresh_byte :: byte

subsection \<open>The region throttle of \<^verbatim>\<open>wf_myrtille_send_region\<close>\<close>

text \<open>The consistency check at the head of \<^verbatim>\<open>wf_myrtille_send_region\<close>: true
  when the region is refused.\<close>

definition region_inconsistent :: "rdpSettings \<Rightarrow> RECT \<Rightarrow> bool" where
  "region_inconsistent st region \<longleftrightarrow>
     rect_left region < 0 \<or> rect_left region > DesktopWidth st \<or>
     rect_top region < 0 \<or> rect_top region > DesktopHeight st \<or>
     rect_right region < 0 \<or> rect_right region > DesktopWidth st \<or>
     rect_bottom region < 0 \<or> rect_bottom region > DesktopHeight st \<or>
     rect_left region > rect_right region \<or> rect_top region > rect_bottom region"

definition unset_RECT :: RECT where
  "unset_RECT = \<lparr>rect_left = - 1, rect_top = - 1, rect_right = - 1, rect_bottom = - 1\<rparr>"

text \<open>The four updates of \<open>imageBuffer\<close>, in the order of the source.\<close>

definition extend_imageBuffer :: "RECT \<Rightarrow> RECT \<Rightarrow> RECT" where
  "extend_imageBuffer buf region =
    (let b1 = (if rect_top buf = - 1 \<or> rect_top region < rect_top buf
               then buf\<lparr>rect_top := rect_top region\<rparr> else buf);
         b2 = (if rect_left b1 = - 1 \<or> rect_left region < rect_left b1
               then b1\<lparr>rect_left := rect_left region\<rparr> else b1);
         b3 = (if rect_bottom b2 = - 1 \<or> rect_bottom region > rect_bottom b2
               then b2\<lparr>rect_bottom := rect_bottom region\<rparr> else b2);
         b4 = (if rect_right b3 = - 1 \<or> rect_right region > rect_right b3
               then b3\<lparr>rect_right := rect_right region\<rparr> else b3)
     in b4)"

text \<open>
  The block "ips regulator": the counter, the accumulator and the sampling. The result is
  the new state and the region that goes on to capture and encoding, or \<open>None\<close> where the
  function returns.
\<close>

definition ips_regulator :: "'f wf_myrtille \<Rightarrow> RECT \<Rightarrow> 'f wf_myrtille \<times> RECT option" where
  "ips_regulator m region =
    (let m1 = (if imageCount m = INT_MAX then m\<lparr>imageCount := 0\<rparr> else m);
         m2 = m1\<lparr>imageCount := wrap32 (imageCount m1 + 1)\<rparr>
     in if imageQuantity m2 = 5 \<or> imageQuantity m2 = 10 \<or> imageQuantity m2 = 20 \<or>
           imageQuantity m2 = 25 \<or> imageQuantity m2 = 50
        then
          (let m3 = m2\<lparr>imageBuffer := extend_imageBuffer (imageBuffer m2) region\<rparr>
           in if c_mod (imageCount m3) (c_div 100 (imageQuantity m3)) \<noteq> 0
              then (m3, None)
              else
                (let buf = imageBuffer m3;
                     region' = (if rect_top buf \<noteq> - 1 \<and> rect_left buf \<noteq> - 1 \<and>
                                   rect_bottom buf \<noteq> - 1 \<and> rect_right buf \<noteq> - 1
                                then region\<lparr>rect_top := rect_top buf, rect_left := rect_left buf,
                                       rect_bottom := rect_bottom buf, rect_right := rect_right buf\<rparr>
                                else region)
                 in (m3\<lparr>imageBuffer := unset_RECT\<rparr>, Some region')))
        else (m2, Some region))"

subsection \<open>Framing on the updates pipe\<close>

text \<open>
  \<^verbatim>\<open>int32ToBytes\<close> writes four bytes of \<open>bytes\<close> from \<open>offset\<close> on. \<^verbatim>\<open>>>\<close> on a
  negative \<^verbatim>\<open>int\<close> is an arithmetic shift, as \<open>drop_bit\<close> on \<^typ>\<open>int\<close> is. Every
  call in the file writes inside the array.
\<close>

definition int32ToBytes :: "int \<Rightarrow> nat \<Rightarrow> byte list \<Rightarrow> byte list" where
  "int32ToBytes value offset bytes =
     bytes[offset := word_of_int (value AND 255),
           offset + 1 := word_of_int (drop_bit 8 value AND 255),
           offset + 2 := word_of_int (drop_bit 16 value AND 255),
           offset + 3 := word_of_int (drop_bit 24 value AND 255)]"

text \<open>\<^verbatim>\<open>bytesToInt32\<close>: the four bytes are promoted to \<^verbatim>\<open>int\<close>, shifted and
  or-ed; the result is a 32-bit \<^verbatim>\<open>int\<close>.\<close>

definition bytesToInt32 :: "byte list \<Rightarrow> int" where
  "bytesToInt32 bytes =
     wrap32 (uint (bytes ! 0) OR push_bit 8 (uint (bytes ! 1)) OR
             push_bit 16 (uint (bytes ! 2)) OR push_bit 24 (uint (bytes ! 3)))"

text \<open>\<^verbatim>\<open>WriteFile\<close> on the updates pipe: a failure sets the exit condition of the
  inputs loop.\<close>

definition WriteFile_updatesPipe :: "'f wf_myrtille \<Rightarrow> byte list \<Rightarrow> 'f wf_myrtille" where
  "WriteFile_updatesPipe m buffer =
     (if updatesPipeBroken m then m\<lparr>processInputs := False\<rparr>
      else m\<lparr>updatesPipe := updatesPipe m @ [buffer]\<rparr>)"

text \<open>The bytes of a wide string in memory: two per \<^verbatim>\<open>wchar_t\<close>, low byte first.\<close>

definition wchar_bytes :: "wchar list \<Rightarrow> byte list" where
  "wchar_bytes msg = concat (map (\<lambda>c. [ucast c, ucast (drop_bit 8 c)]) msg)"

definition sendMessage :: "'f env \<Rightarrow> 'f wfContext \<Rightarrow> wchar list \<Rightarrow> 'f wfContext" where
  "sendMessage env wfc msg =
     (if length msg = 0 then wfc
      else
        (let size' = length msg * 2;
             header = int32ToBytes (int size') 0 (replicate 4 (fresh_byte env));
             buffer = header @ wchar_bytes msg
         in wfc\<lparr>myrtille := WriteFile_updatesPipe (myrtille wfc) buffer\<rparr>))"

text \<open>\<^verbatim>\<open>takeScreenshot\<close> saves the bitmap under \<open>screenshotPath\<close>, as PNG or as JPEG.\<close>

definition takeScreenshot :: "'f wfContext \<Rightarrow> bitmap \<Rightarrow> 'f wfContext" where
  "takeScreenshot wfc bmp =
     (if screenshotPath (myrtille wfc) \<noteq> [] \<and>
         (screenshotFormat (myrtille wfc) = IMAGE_FORMAT_PNG \<or>
          screenshotFormat (myrtille wfc) = IMAGE_FORMAT_JPEG)
      then wfc\<lparr>effects := effects wfc @ [takeScreenshot_saved (screenshotFormat (myrtille wfc))]\<rparr>
      else wfc)"

text \<open>
  \<^verbatim>\<open>sendImage\<close>, first the buffer it builds: a header of 40 bytes and the data.
  \<open>stream\<close> is the content of the \<^verbatim>\<open>IStream\<close>; \<open>size'\<close> bytes are read from its
  start into a fresh array, and a short read leaves the rest of the array as it was. Both
  callers pass the size of the stream itself, and a positive one.
\<close>

definition sendImage_buffer ::
  "'f env \<Rightarrow> int \<Rightarrow> int \<Rightarrow> int \<Rightarrow> int \<Rightarrow> int \<Rightarrow> int \<Rightarrow> int \<Rightarrow> byte list \<Rightarrow> int \<Rightarrow> bool \<Rightarrow>
   byte list" where
  "sendImage_buffer env idx posX posY width height format quality stream size' fullscreen =
    (let header0 = replicate 40 (fresh_byte env);
         header1 = int32ToBytes (size' + 36) 0 header0;
         header2 = int32ToBytes 0 4 header1;
         header3 = int32ToBytes idx 8 header2;
         header4 = int32ToBytes posX 12 header3;
         header5 = int32ToBytes posY 16 header4;
         header6 = int32ToBytes width 20 header5;
         header7 = int32ToBytes height 24 header6;
         header8 = int32ToBytes format 28 header7;
         header9 = int32ToBytes quality 32 header8;
         header = int32ToBytes (if fullscreen then 1 else 0) 36 header9;
         bytesRead = take (nat size') stream;
         data = bytesRead @ replicate (nat size' - length bytesRead) (fresh_byte env)
     in header @ data)"

text \<open>The buffer is written to the updates pipe; a screenshot that was asked for is taken
  from a fullscreen image.\<close>

definition sendImage ::
  "'f env \<Rightarrow> 'f wfContext \<Rightarrow> bitmap \<Rightarrow> int \<Rightarrow> int \<Rightarrow> int \<Rightarrow> int \<Rightarrow> int \<Rightarrow> int \<Rightarrow> int \<Rightarrow>
   byte list \<Rightarrow> int \<Rightarrow> bool \<Rightarrow> 'f wfContext" where
  "sendImage env wfc bmp idx posX posY width height format quality stream size' fullscreen =
    (let buffer = sendImage_buffer env idx posX posY width height format quality stream size' fullscreen;
         wfc1 = wfc\<lparr>myrtille := WriteFile_updatesPipe (myrtille wfc) buffer\<rparr>
     in if screenshotEnabled (myrtille wfc1) \<and> fullscreen
        then takeScreenshot (wfc1\<lparr>myrtille := (myrtille wfc1)\<lparr>screenshotEnabled := False\<rparr>\<rparr>) bmp
        else wfc1)"

subsection \<open>The encoding pipeline: \<^verbatim>\<open>processImage\<close>\<close>

text \<open>The quality the function starts from (the initialiser of its local \<^verbatim>\<open>quality\<close>).\<close>

definition initial_quality :: "'f wf_myrtille \<Rightarrow> bool \<Rightarrow> bool \<Rightarrow> int" where
  "initial_quality m fullscreen adaptive =
     (if imageEncoding m = IMAGE_ENCODING_PNG then IMAGE_QUALITY_HIGHEST
      else if fullscreen \<and> adaptive then IMAGE_QUALITY_HIGHER
      else imageQuality m)"

text \<open>
  The encoding and the choice of the stream to send: the stream (\<open>None\<close> for a null
  pointer), the format, the quality and the size. With an encoding that is none of the four,
  no branch runs: the stream stays null and the size 0 (the format is then never read).
  A stream's size is the number of its bytes; streams are taken to be shorter than
  \<open>2^31\<close> bytes, so that the \<^verbatim>\<open>ULONG\<close> and the \<^verbatim>\<open>int\<close> holding a size hold it exactly.
\<close>

definition select_stream ::
  "'f env \<Rightarrow> 'f wf_myrtille \<Rightarrow> bitmap \<Rightarrow> int \<Rightarrow> byte list option \<times> int \<times> int \<times> nat" where
  "select_stream env m bmp quality =
    (if imageEncoding m = IMAGE_ENCODING_PNG \<or> imageEncoding m = IMAGE_ENCODING_JPEG \<or>
        imageEncoding m = IMAGE_ENCODING_AUTO
     then
       (let pngStream = (if imageEncoding m = IMAGE_ENCODING_PNG \<or> imageEncoding m = IMAGE_ENCODING_AUTO
                         then Some (encodePNG env bmp) else None);
            pngSize = (case pngStream of None \<Rightarrow> 0 | Some s \<Rightarrow> length s);
            jpgStream = (if imageEncoding m = IMAGE_ENCODING_JPEG \<or> imageEncoding m = IMAGE_ENCODING_AUTO
                         then Some (encodeJPEG env bmp quality) else None);
            jpgSize = (case jpgStream of None \<Rightarrow> 0 | Some s \<Rightarrow> length s)
        in if imageEncoding m = IMAGE_ENCODING_PNG \<or>
              (imageEncoding m = IMAGE_ENCODING_AUTO \<and> pngSize \<le> jpgSize)
           then (pngStream, IMAGE_FORMAT_PNG, IMAGE_QUALITY_HIGHEST, pngSize)
           else (jpgStream, IMAGE_FORMAT_JPEG, quality, jpgSize))
     else if imageEncoding m = IMAGE_ENCODING_WEBP
     then
       (let webpStream = encodeWEBP env bmp quality
        in (Some webpStream, IMAGE_FORMAT_WEBP, quality, length webpStream))
     else (None, 0, quality, 0))"

definition processImage ::
  "'f env \<Rightarrow> 'f wfContext \<Rightarrow> bitmap \<Rightarrow> int \<Rightarrow> int \<Rightarrow> int \<Rightarrow> int \<Rightarrow> bool \<Rightarrow> bool \<Rightarrow> 'f wfContext" where
  "processImage env wfc bmp left top' right bottom fullscreen adaptive =
    (case select_stream env (myrtille wfc) bmp (initial_quality (myrtille wfc) fullscreen adaptive) of
       (stream, format, quality, size') \<Rightarrow>
         (let wfc1 = (if imageIdx (myrtille wfc) = INT_MAX
                      then wfc\<lparr>myrtille := (myrtille wfc)\<lparr>imageIdx := 0\<rparr>\<rparr> else wfc)
          in case stream of
               None \<Rightarrow> wfc1
             | Some s \<Rightarrow>
                 if size' > 0
                 then
                   (let idx = wrap32 (imageIdx (myrtille wfc1) + 1);
                        wfc2 = wfc1\<lparr>myrtille := (myrtille wfc1)\<lparr>imageIdx := idx\<rparr>\<rparr>
                    in sendImage env wfc2 bmp idx left top' (right - left) (bottom - top')
                         format quality s (int size') fullscreen)
                 else wfc1))"

subsection \<open>Region, fullscreen and cursor updates\<close>

text \<open>
  The block "extract the consolidated region" of \<^verbatim>\<open>wf_myrtille_send_region\<close>: the bitmap
  copied from the desktop, and the region in the coordinates of the client. The products of
  the scaled branch are 32-bit products; a desktop of width or height 0 makes its divisions
  trap.
\<close>

definition extract_region :: "'f env \<Rightarrow> 'f wfContext \<Rightarrow> RECT \<Rightarrow> fault + bitmap \<times> RECT" where
  "extract_region env wfc region =
    (let m = myrtille wfc;
         cw = clientWidth m;
         ch = clientHeight m;
         dw = DesktopWidth (settings wfc);
         dh = DesktopHeight (settings wfc);
         w = rect_right region - rect_left region;
         h = rect_bottom region - rect_top region
     in if \<not> scaleDisplay m \<or> (cw = dw \<and> ch = dh)
        then Inr (StretchBlt env w h (rect_left region) (rect_top region) w h, region)
        else if dw = 0 \<or> dh = 0 then Inl divide_by_zero
        else Inr (StretchBlt env (c_div (wrap32 (w * cw)) dw) (c_div (wrap32 (h * ch)) dh)
                    (rect_left region) (rect_top region) w h,
                  region\<lparr>
                    rect_left := c_div (wrap32 (rect_left region * cw)) dw,
                    rect_top := c_div (wrap32 (rect_top region * ch)) dh,
                    rect_right := c_div (wrap32 (rect_right region * cw)) dw,
                    rect_bottom := c_div (wrap32 (rect_bottom region * ch)) dh\<rparr>))"

text \<open>
  \<^verbatim>\<open>wf_myrtille_send_region\<close>: the three early returns, the regulator, the extraction
  and the call of \<^verbatim>\<open>processImage\<close>, with both flags false.
\<close>

definition wf_myrtille_send_region :: "'f env \<Rightarrow> 'f wfContext \<Rightarrow> RECT \<Rightarrow> fault + 'f wfContext" where
  "wf_myrtille_send_region env wfc region =
    (if MyrtilleSessionId (settings wfc) = None then Inr wfc
     else if \<not> primary_hdc wfc then Inr wfc
     else if region_inconsistent (settings wfc) region then Inr wfc
     else
       (case ips_regulator (myrtille wfc) region of
          (m, None) \<Rightarrow> Inr (wfc\<lparr>myrtille := m\<rparr>)
        | (m, Some region1) \<Rightarrow>
            (case extract_region env (wfc\<lparr>myrtille := m\<rparr>) region1 of
               Inl e \<Rightarrow> Inl e
             | Inr (bmpRegion, region2) \<Rightarrow>
                 Inr (processImage env (wfc\<lparr>myrtille := m\<rparr>) bmpRegion
                        (rect_left region2) (rect_top region2)
                        (rect_right region2) (rect_bottom region2) False False))))"

definition wf_myrtille_send_screen :: "'f env \<Rightarrow> 'f wfContext \<Rightarrow> bool \<Rightarrow> 'f wfContext" where
  "wf_myrtille_send_screen env wfc adaptive =
    (if MyrtilleSessionId (settings wfc) = None then wfc
     else if \<not> primary_hdc wfc then wfc
     else
       (let m = myrtille wfc;
            cw = clientWidth m;
            ch = clientHeight m;
            dw = DesktopWidth (settings wfc);
            dh = DesktopHeight (settings wfc);
            bw = (if scaleDisplay m then cw else dw);
            bh = (if scaleDisplay m then ch else dh);
            bmpScreen = (if \<not> scaleDisplay m \<or> (cw = dw \<and> ch = dh)
                         then StretchBlt env dw dh 0 0 dw dh
                         else StretchBlt env cw ch 0 0 dw dh)
        in processImage env wfc bmpScreen 0 0 bw bh True adaptive))"

text \<open>
  The cursor: every pixel of the blue mask becomes transparent, a yellow pixel becomes
  black. The two flags say whether a mask pixel and whether any other pixel was met.
\<close>

definition cursor_is_mask :: "32 word \<Rightarrow> bool" where
  "cursor_is_mask color \<longleftrightarrow>
     drop_bit 16 (color AND 0xff0000) = 0 \<and> drop_bit 8 (color AND 0xff00) = 0 \<and>
     color AND 0xff = 255"

definition cursor_pixel :: "32 word \<Rightarrow> 32 word" where
  "cursor_pixel color =
     (if cursor_is_mask color then 0x00ffffff
      else if drop_bit 16 (color AND 0xff0000) = 255 \<and> drop_bit 8 (color AND 0xff00) = 255 \<and>
              color AND 0xff = 0
      then 0xff000000
      else color)"

definition wf_myrtille_send_cursor :: "'f env \<Rightarrow> 'f wfContext \<Rightarrow> 'f wfContext" where
  "wf_myrtille_send_cursor env wfc =
    (if MyrtilleSessionId (settings wfc) = None then wfc
     else if \<not> primary_hdc wfc then wfc
     else
       (let bmpCursor = cursor_bitmap env;
            bmpBitsTransparent = (\<exists>c \<in> set (bmp_bits bmpCursor). cursor_is_mask c);
            bmpBitsColor = (\<exists>c \<in> set (bmp_bits bmpCursor). \<not> cursor_is_mask c);
            bmpTransparentCursor = bmpCursor\<lparr>bmp_bits := map cursor_pixel (bmp_bits bmpCursor)\<rparr>
        in if bmpBitsTransparent \<and> bmpBitsColor
           then
             (let pngStream = encodePNG env bmpTransparentCursor;
                  pngSize = length pngStream;
                  wfc1 = (if imageIdx (myrtille wfc) = INT_MAX
                          then wfc\<lparr>myrtille := (myrtille wfc)\<lparr>imageIdx := 0\<rparr>\<rparr> else wfc)
              in if pngSize > 0
                 then
                   (let idx = wrap32 (imageIdx (myrtille wfc1) + 1);
                        wfc2 = wfc1\<lparr>myrtille := (myrtille wfc1)\<lparr>imageIdx := idx\<rparr>\<rparr>
                    in sendImage env wfc2 bmpTransparentCursor idx
                         (fst (cursor_hotspot env)) (snd (cursor_hotspot env))
                         (int (bmp_width bmpTransparentCursor)) (int (bmp_height bmpTransparentCursor))
                         IMAGE_FORMAT_CUR IMAGE_QUALITY_HIGHEST pngStream (int pngSize) False)
                 else wfc1)
           else wfc))"

subsection \<open>Session start\<close>

text \<open>\<^verbatim>\<open>L"reload"\<close> and the other wide string literals, as UTF-16 code units.\<close>

definition wide :: "string \<Rightarrow> wchar list" where
  "wide s = map (\<lambda>c. of_char c) s"

text \<open>
  \<^verbatim>\<open>wf_myrtille_start\<close>: the command table and the defaults of a session. The structure
  comes from \<^verbatim>\<open>calloc\<close>; the pipes are connected later and start empty. Whether the
  updates pipe will fail is the environment's, and \<open>commandMap\<close> is a global: both are
  taken from the state before.
\<close>

definition wf_myrtille_start :: "'f env \<Rightarrow> 'f wfContext \<Rightarrow> 'f wfContext" where
  "wf_myrtille_start env wfc =
    (if MyrtilleSessionId (settings wfc) = None then wfc
     else wfc\<lparr>myrtille :=
       \<lparr>updatesPipe = [],
        updatesPipeBroken = updatesPipeBroken (myrtille wfc),
        commandMap = (commandMap (myrtille wfc))
          (''SRV'' \<mapsto> SEND_SERVER_ADDRESS, ''VMG'' \<mapsto> SEND_VM_GUID,
           ''DOM'' \<mapsto> SEND_USER_DOMAIN, ''USR'' \<mapsto> SEND_USER_NAME,
           ''PWD'' \<mapsto> SEND_USER_PASSWORD, ''PRG'' \<mapsto> SEND_START_PROGRAM,
           ''CON'' \<mapsto> CONNECT_CLIENT, ''RSZ'' \<mapsto> SEND_BROWSER_RESIZE,
           ''PLS'' \<mapsto> SEND_BROWSER_PULSE, ''KUC'' \<mapsto> SEND_KEY_UNICODE,
           ''KSC'' \<mapsto> SEND_KEY_SCANCODE, ''MMO'' \<mapsto> SEND_MOUSE_MOVE,
           ''MLB'' \<mapsto> SEND_MOUSE_LEFT_BUTTON, ''MMB'' \<mapsto> SEND_MOUSE_MIDDLE_BUTTON,
           ''MRB'' \<mapsto> SEND_MOUSE_RIGHT_BUTTON, ''MWU'' \<mapsto> SEND_MOUSE_WHEEL_UP,
           ''MWD'' \<mapsto> SEND_MOUSE_WHEEL_DOWN, ''SCA'' \<mapsto> SET_SCALE_DISPLAY,
           ''RCN'' \<mapsto> SET_RECONNECT_SESSION, ''ECD'' \<mapsto> SET_IMAGE_ENCODING,
           ''QLT'' \<mapsto> SET_IMAGE_QUALITY, ''QNT'' \<mapsto> SET_IMAGE_QUANTITY,
           ''AUD'' \<mapsto> SET_AUDIO_FORMAT, ''BIT'' \<mapsto> SET_AUDIO_BITRATE,
           ''SSC'' \<mapsto> SET_SCREENSHOT_CONFIG, ''SS1'' \<mapsto> START_TAKING_SCREENSHOTS,
           ''SS0'' \<mapsto> STOP_TAKING_SCREENSHOTS, ''SCN'' \<mapsto> TAKE_SCREENSHOT,
           ''FSU'' \<mapsto> REQUEST_FULLSCREEN_UPDATE, ''CLP'' \<mapsto> SEND_LOCAL_CLIPBOARD,
           ''CLO'' \<mapsto> CLOSE_CLIENT),
        processInputs = True,
        imageEncoding = IMAGE_ENCODING_AUTO,
        imageQuality = IMAGE_QUALITY_HIGH,
        imageQuantity = IMAGE_COUNT_SAMPLING_RATE,
        imageCount = 0,
        imageIdx = 0,
        imageBuffer = unset_RECT,
        scaleDisplay = False,
        clientWidth = DesktopWidth (settings wfc),
        clientHeight = DesktopHeight (settings wfc),
        aspectRatio = float_div env (float_of_int env (DesktopWidth (settings wfc)))
                        (float_of_int env (DesktopHeight (settings wfc))),
        audioFormat = AUDIO_FORMAT_MP3,
        audioBitrate = 128,
        screenshotIntervalSecs = 60,
        screenshotFormat = IMAGE_FORMAT_PNG,
        screenshotPath = [],
        screenshotEnabled = False,
        clipboardText = []\<rparr>\<rparr>)"

subsection \<open>Strings and numbers of the command arguments\<close>

text \<open>\<^verbatim>\<open>c_str()\<close> handed to a C function: the string up to its first NUL.\<close>

definition c_str :: "string \<Rightarrow> string" where
  "c_str s = takeWhile (\<lambda>c. of_char c \<noteq> (0::nat)) s"

definition isspace :: "char \<Rightarrow> bool" where
  "isspace c \<longleftrightarrow> of_char c = (32::nat) \<or> (9 \<le> (of_char c :: nat) \<and> (of_char c :: nat) \<le> 13)"

definition isdigit :: "char \<Rightarrow> bool" where
  "isdigit c \<longleftrightarrow> 48 \<le> (of_char c :: nat) \<and> (of_char c :: nat) \<le> 57"

definition digits_value :: "string \<Rightarrow> int" where
  "digits_value ds = foldl (\<lambda>acc c. acc * 10 + (of_char c - 48)) 0 ds"

text \<open>
  What \<^verbatim>\<open>strtol\<close> reads in base 10: white space, an optional sign, digits. \<open>None\<close> when
  there is no digit to convert; the value is not yet bounded.
\<close>

definition strtol_parse :: "string \<Rightarrow> int option" where
  "strtol_parse s =
    (let s1 = dropWhile isspace (c_str s);
         negative = (case s1 of c # _ \<Rightarrow> c = CHR ''-'' | [] \<Rightarrow> False);
         s2 = (case s1 of c # cs \<Rightarrow> (if c = CHR ''-'' \<or> c = CHR ''+'' then cs else s1) | [] \<Rightarrow> s1);
         ds = takeWhile isdigit s2
     in if ds = [] then None
        else Some (if negative then - digits_value ds else digits_value ds))"

text \<open>\<^verbatim>\<open>std::stoi\<close> throws where nothing converts and where the value is no \<^verbatim>\<open>int\<close>.\<close>

definition stoi :: "string \<Rightarrow> fault + int" where
  "stoi s =
    (case strtol_parse s of
       None \<Rightarrow> Inl invalid_argument
     | Some v \<Rightarrow> if v < INT_MIN \<or> v > INT_MAX then Inl out_of_range else Inr v)"

text \<open>\<^verbatim>\<open>atoi\<close> gives 0 where nothing converts, and the nearest bound on overflow (as the
  Microsoft runtime does).\<close>

definition atoi :: "string \<Rightarrow> int" where
  "atoi s =
    (case strtol_parse s of
       None \<Rightarrow> 0
     | Some v \<Rightarrow> if v < INT_MIN then INT_MIN else if v > INT_MAX then INT_MAX else v)"

text \<open>
  \<^verbatim>\<open>split\<close>: \<^verbatim>\<open>std::getline\<close> until it fails. \<open>item\<close> holds, reversed, what the current
  call has read; a call that meets the end of the string having read nothing fails.
\<close>

fun split_items :: "char \<Rightarrow> string \<Rightarrow> string \<Rightarrow> string list" where
  "split_items delim item [] = (if item = [] then [] else [rev item])"
| "split_items delim item (c # cs) =
     (if c = delim then rev item # split_items delim [] cs
      else split_items delim (c # item) cs)"

definition split :: "string \<Rightarrow> char \<Rightarrow> string list" where
  "split s delim = split_items delim [] s"

text \<open>\<^verbatim>\<open>find\<close> of a character: the index of its first occurrence, if any.\<close>

definition find_char :: "string \<Rightarrow> char \<Rightarrow> nat option" where
  "find_char s c = (if c \<in> set s then Some (length (takeWhile (\<lambda>x. x \<noteq> c) s)) else None)"

subsection \<open>Display and mouse\<close>

definition processResizeDisplay ::
  "'f env \<Rightarrow> 'f wfContext \<Rightarrow> bool \<Rightarrow> string \<Rightarrow> fault + 'f wfContext" where
  "processResizeDisplay env wfc keepAspectRatio resolution =
    (case find_char resolution CHR ''x'' of
       None \<Rightarrow> Inr wfc
     | Some separatorIdx \<Rightarrow>
        (case stoi (take separatorIdx resolution) of
           Inl e \<Rightarrow> Inl e
         | Inr clientWidth' \<Rightarrow>
            (case stoi (drop (separatorIdx + 1) resolution) of
               Inl e \<Rightarrow> Inl e
             | Inr clientHeight' \<Rightarrow>
                (let m = myrtille wfc in
                 if keepAspectRatio
                 then
                   (let aspectRatio' = float_div env (float_of_int env clientWidth')
                                         (float_of_int env clientHeight')
                    in if float_eq env (aspectRatio m) aspectRatio'
                       then Inr (wfc\<lparr>myrtille := m\<lparr>clientWidth := clientWidth',
                                                    clientHeight := clientHeight'\<rparr>\<rparr>)
                       else if float_less env (aspectRatio m) aspectRatio'
                       then Inr (wfc\<lparr>myrtille := m\<lparr>
                              clientWidth := int_of_float env
                                (float_mul env (float_of_int env clientHeight') (aspectRatio m)),
                              clientHeight := clientHeight'\<rparr>\<rparr>)
                       else Inr (wfc\<lparr>myrtille := m\<lparr>
                              clientWidth := clientWidth',
                              clientHeight := int_of_float env
                                (float_div env (float_of_int env clientWidth') (aspectRatio m))\<rparr>\<rparr>))
                 else Inr (wfc\<lparr>myrtille := m\<lparr>clientWidth := clientWidth',
                                              clientHeight := clientHeight'\<rparr>\<rparr>)))))"

text \<open>\<^verbatim>\<open>processMouseInput\<close>. The conjunction is evaluated left to right and stops early,
  so the second coordinate is parsed only when the first is there and not negative.\<close>

definition processMouseInput ::
  "'f wfContext \<Rightarrow> string \<Rightarrow> ptr_flag list \<Rightarrow> fault + 'f wfContext" where
  "processMouseInput wfc input flags =
    (if \<not> input_MouseEvent wfc then Inr wfc
     else
      (case find_char input CHR ''-'' of
         None \<Rightarrow> Inr wfc
       | Some separatorIdx \<Rightarrow>
          (let mX = take separatorIdx input;
               mY = drop (separatorIdx + 1) input
           in if mX = [] then Inr wfc
              else
               (case stoi mX of
                  Inl e \<Rightarrow> Inl e
                | Inr x \<Rightarrow>
                   if \<not> x \<ge> 0 \<or> mY = [] then Inr wfc
                   else
                    (case stoi mY of
                       Inl e \<Rightarrow> Inl e
                     | Inr y \<Rightarrow>
                        if \<not> y \<ge> 0 then Inr wfc
                        else
                         (let m = myrtille wfc;
                              cw = clientWidth m;
                              ch = clientHeight m;
                              dw = DesktopWidth (settings wfc);
                              dh = DesktopHeight (settings wfc)
                          in if \<not> scaleDisplay m \<or> (cw = dw \<and> ch = dh)
                             then Inr (wfc\<lparr>effects := effects wfc @ [MouseEvent flags x y]\<rparr>)
                             else if cw = 0 \<or> ch = 0 then Inl divide_by_zero
                             else Inr (wfc\<lparr>effects := effects wfc @
                                    [MouseEvent flags (c_div (wrap32 (x * dw)) cw)
                                                      (c_div (wrap32 (y * dh)) ch)]\<rparr>)))))))"

subsection \<open>The command dispatcher of \<^verbatim>\<open>processInputsPipe\<close>\<close>

text \<open>
  \<^verbatim>\<open>case COMMAND::SEND_SERVER_ADDRESS\<close>. The host name is freed and set to null first.
  Without a bracket the argument is \<open>host\<close> or \<open>host:port\<close>; with one it is read as
  \<open>[ipv6]\<close> or \<open>[ipv6]:port\<close>, from the first \<open>[\<close> to the first \<open>]\<close> (a \<open>]\<close> before
  the \<open>[\<close> asks \<^verbatim>\<open>calloc\<close> for a negative length, which gives null).
\<close>

definition set_server_address :: "rdpSettings \<Rightarrow> string \<Rightarrow> rdpSettings" where
  "set_server_address st commandArgs =
    (let a = c_str commandArgs;
         st0 = st\<lparr>ServerHostname := None\<rparr>
     in case find_char a CHR ''['' of
          None \<Rightarrow>
            (case find_char a CHR '':'' of
               Some length' \<Rightarrow>
                 st0\<lparr>ServerPort := atoi (drop (length' + 1) a),
                     ServerHostname := Some (take length' a)\<rparr>
             | None \<Rightarrow> st0\<lparr>ServerHostname := Some a\<rparr>)
        | Some p \<Rightarrow>
            (case find_char a CHR '']'' of
               None \<Rightarrow> st0
             | Some p2 \<Rightarrow>
                 if p2 < p then st0
                 else
                   (let st1 = st0\<lparr>ServerHostname := Some (take (p2 - p - 1) (drop (p + 1) a))\<rparr>
                    in if take 1 (drop (p2 + 1) a) = '':''
                       then st1\<lparr>ServerPort := atoi (drop (p2 + 2) a)\<rparr>
                       else st1)))"

text \<open>\<^verbatim>\<open>case COMMAND::SEND_USER_NAME\<close>: the domain is split off the user name only
  while no domain is set.\<close>

definition set_user_name :: "'f env \<Rightarrow> rdpSettings \<Rightarrow> string \<Rightarrow> rdpSettings" where
  "set_user_name env st commandArgs =
    (let user = c_str commandArgs
     in if Domain' st = None
        then (case freerdp_parse_username env user of
                (u, d) \<Rightarrow> st\<lparr>Username := u, Domain' := d\<rparr>)
        else st\<lparr>Username := Some user\<rparr>)"

text \<open>The keyboard cases. \<open>args\<close> is the argument split at \<open>-\<close>.\<close>

definition send_key :: "'f wfContext \<Rightarrow> COMMAND \<Rightarrow> string \<Rightarrow> 'f wfContext" where
  "send_key wfc command commandArgs =
    (let args = split commandArgs CHR ''-''
     in if length args \<ge> 2
        then
          (let keyCode = args ! 0;
               pressed = args ! 1
           in if command = SEND_KEY_UNICODE
              then
                (if input_UnicodeKeyboardEvent wfc
                 then wfc\<lparr>effects := effects wfc @
                        [UnicodeKeyboardEvent
                           [if pressed = ''1'' then KBD_FLAGS_DOWN else KBD_FLAGS_RELEASE]
                           (atoi keyCode)]\<rparr>
                 else wfc)
              else if length args = 3
              then
                (let extend = args ! 2
                 in if input_KeyboardEvent wfc
                    then wfc\<lparr>effects := effects wfc @
                           [KeyboardEvent
                              ((if extend = ''1'' then [KBD_FLAGS_EXTENDED] else []) @
                               [if pressed = ''1'' then KBD_FLAGS_DOWN else KBD_FLAGS_RELEASE])
                              (atoi keyCode)]\<rparr>
                    else wfc)
              else wfc)
        else wfc)"

text \<open>The three button cases: \<^verbatim>\<open>substr(1, ...)\<close> throws on an empty argument.\<close>

definition send_mouse_button :: "'f wfContext \<Rightarrow> string \<Rightarrow> ptr_flag \<Rightarrow> fault + 'f wfContext" where
  "send_mouse_button wfc commandArgs button =
    (if commandArgs = [] then Inl out_of_range
     else processMouseInput wfc (drop 1 commandArgs)
            (if take 1 commandArgs = ''0'' then [button] else [PTR_FLAGS_DOWN, button]))"

text \<open>The body of \<^verbatim>\<open>SEND_BROWSER_RESIZE\<close> and of \<^verbatim>\<open>SET_SCALE_DISPLAY\<close> while the
  display is scaled.\<close>

definition resize_from_args :: "'f env \<Rightarrow> 'f wfContext \<Rightarrow> string \<Rightarrow> fault + 'f wfContext" where
  "resize_from_args env wfc commandArgs =
    (let args = split commandArgs CHR ''|''
     in if length args = 2
        then processResizeDisplay env wfc (args ! 0 = ''1'') (args ! 1)
        else Inr wfc)"

definition set_int_field ::
  "string \<Rightarrow> (int \<Rightarrow> 'f wf_myrtille \<Rightarrow> 'f wf_myrtille) \<Rightarrow> 'f wfContext \<Rightarrow> fault + 'f wfContext" where
  "set_int_field commandArgs upd wfc =
    (case stoi commandArgs of
       Inl e \<Rightarrow> Inl e
     | Inr v \<Rightarrow> Inr (wfc\<lparr>myrtille := upd v (myrtille wfc)\<rparr>))"

text \<open>The \<^verbatim>\<open>switch (command)\<close>.\<close>

fun dispatch :: "'f env \<Rightarrow> 'f wfContext \<Rightarrow> COMMAND \<Rightarrow> string \<Rightarrow> fault + 'f wfContext" where
  "dispatch env wfc SEND_SERVER_ADDRESS commandArgs =
     Inr (wfc\<lparr>settings := set_server_address (settings wfc) commandArgs\<rparr>)"
| "dispatch env wfc SEND_VM_GUID commandArgs =
     Inr (wfc\<lparr>settings := (settings wfc)\<lparr>VmConnectMode := True, ServerPort := 2179,
            NegotiateSecurityLayer := False, SendPreconnectionPdu := True,
            PreconnectionBlob := Some (c_str commandArgs)\<rparr>\<rparr>)"
| "dispatch env wfc SEND_USER_DOMAIN commandArgs =
     Inr (wfc\<lparr>settings := (settings wfc)\<lparr>Domain' := Some (c_str commandArgs)\<rparr>\<rparr>)"
| "dispatch env wfc SEND_USER_NAME commandArgs =
     Inr (wfc\<lparr>settings := set_user_name env (settings wfc) commandArgs\<rparr>)"
| "dispatch env wfc SEND_USER_PASSWORD commandArgs =
     Inr (wfc\<lparr>settings := (settings wfc)\<lparr>Password := Some (c_str commandArgs)\<rparr>\<rparr>)"
| "dispatch env wfc SEND_START_PROGRAM commandArgs =
     Inr (wfc\<lparr>settings := (settings wfc)\<lparr>AlternateShell := Some (c_str commandArgs)\<rparr>\<rparr>)"
| "dispatch env wfc CONNECT_CLIENT commandArgs =
     Inr (wfc\<lparr>effects := effects wfc @ [wf_client_thread]\<rparr>)"
| "dispatch env wfc SEND_BROWSER_RESIZE commandArgs =
     (if scaleDisplay (myrtille wfc)
      then (case resize_from_args env wfc commandArgs of
              Inl e \<Rightarrow> Inl e
            | Inr wfc1 \<Rightarrow> Inr (sendMessage env wfc1 (wide ''reload'')))
      else Inr wfc)"
| "dispatch env wfc SEND_BROWSER_PULSE commandArgs = Inr wfc"
| "dispatch env wfc SEND_KEY_UNICODE commandArgs = Inr (send_key wfc SEND_KEY_UNICODE commandArgs)"
| "dispatch env wfc SEND_KEY_SCANCODE commandArgs = Inr (send_key wfc SEND_KEY_SCANCODE commandArgs)"
| "dispatch env wfc SEND_MOUSE_MOVE commandArgs =
     processMouseInput wfc commandArgs [PTR_FLAGS_MOVE]"
| "dispatch env wfc SEND_MOUSE_LEFT_BUTTON commandArgs =
     send_mouse_button wfc commandArgs PTR_FLAGS_BUTTON1"
| "dispatch env wfc SEND_MOUSE_MIDDLE_BUTTON commandArgs =
     send_mouse_button wfc commandArgs PTR_FLAGS_BUTTON3"
| "dispatch env wfc SEND_MOUSE_RIGHT_BUTTON commandArgs =
     send_mouse_button wfc commandArgs PTR_FLAGS_BUTTON2"
| "dispatch env wfc SEND_MOUSE_WHEEL_UP commandArgs =
     processMouseInput wfc commandArgs [PTR_FLAGS_WHEEL, PTR_ROTATION 0x0078]"
| "dispatch env wfc SEND_MOUSE_WHEEL_DOWN commandArgs =
     processMouseInput wfc commandArgs
       [PTR_FLAGS_WHEEL, PTR_FLAGS_WHEEL_NEGATIVE, PTR_ROTATION 0x0088]"
| "dispatch env wfc SET_SCALE_DISPLAY commandArgs =
     (let wfc1 = wfc\<lparr>myrtille := (myrtille wfc)\<lparr>scaleDisplay := (commandArgs \<noteq> ''0'')\<rparr>\<rparr>
      in if scaleDisplay (myrtille wfc1)
         then (case resize_from_args env wfc1 commandArgs of
                 Inl e \<Rightarrow> Inl e
               | Inr wfc2 \<Rightarrow> Inr (sendMessage env wfc2 (wide ''reload'')))
         else Inr (sendMessage env wfc1 (wide ''reload'')))"
| "dispatch env wfc SET_RECONNECT_SESSION commandArgs =
     (let args = split commandArgs CHR ''|''
      in if length args = 2 \<and> args ! 1 = ''1''
         then Inr (sendMessage env wfc (wide ''reload''))
         else Inr wfc)"
| "dispatch env wfc SET_IMAGE_ENCODING commandArgs =
     (case stoi commandArgs of
        Inl e \<Rightarrow> Inl e
      | Inr v \<Rightarrow> Inr (wfc\<lparr>myrtille := (myrtille wfc)\<lparr>imageEncoding := v,
                                                    imageQuality := IMAGE_QUALITY_HIGH\<rparr>\<rparr>))"
| "dispatch env wfc SET_IMAGE_QUALITY commandArgs =
     set_int_field commandArgs (\<lambda>v m. m\<lparr>imageQuality := v\<rparr>) wfc"
| "dispatch env wfc SET_IMAGE_QUANTITY commandArgs =
     set_int_field commandArgs (\<lambda>v m. m\<lparr>imageQuantity := v\<rparr>) wfc"
| "dispatch env wfc SET_AUDIO_FORMAT commandArgs =
     set_int_field commandArgs (\<lambda>v m. m\<lparr>audioFormat := v\<rparr>) wfc"
| "dispatch env wfc SET_AUDIO_BITRATE commandArgs =
     set_int_field commandArgs (\<lambda>v m. m\<lparr>audioBitrate := v\<rparr>) wfc"
| "dispatch env wfc SET_SCREENSHOT_CONFIG commandArgs =
     (let args = split commandArgs CHR ''|''
      in if length args = 3
         then (case stoi (args ! 0) of
                 Inl e \<Rightarrow> Inl e
               | Inr interval \<Rightarrow>
                  (case stoi (args ! 1) of
                     Inl e \<Rightarrow> Inl e
                   | Inr format \<Rightarrow>
                       Inr (wfc\<lparr>myrtille := (myrtille wfc)\<lparr>screenshotIntervalSecs := interval,
                              screenshotFormat := format, screenshotPath := args ! 2\<rparr>\<rparr>)))
         else Inr wfc)"
| "dispatch env wfc START_TAKING_SCREENSHOTS commandArgs = Inr wfc"
| "dispatch env wfc STOP_TAKING_SCREENSHOTS commandArgs = Inr wfc"
| "dispatch env wfc TAKE_SCREENSHOT commandArgs =
     Inr (wf_myrtille_send_screen env
            (wfc\<lparr>myrtille := (myrtille wfc)\<lparr>screenshotEnabled := True\<rparr>\<rparr>) True)"
| "dispatch env wfc REQUEST_FULLSCREEN_UPDATE commandArgs =
     Inr (wf_myrtille_send_screen env wfc (commandArgs = ''adaptive''))"
| "dispatch env wfc SEND_LOCAL_CLIPBOARD commandArgs =
     (case ConvertToUnicode env (c_str commandArgs) of
        None \<Rightarrow> Inl null_pointer
      | Some clipboardText' \<Rightarrow>
          (let wfc1 = wfc\<lparr>myrtille := (myrtille wfc)\<lparr>clipboardText := clipboardText'\<rparr>\<rparr>
           in if cliprdr wfc1 then Inr (wfc1\<lparr>effects := effects wfc1 @ [MonitorReady]\<rparr>)
              else Inr wfc1))"
| "dispatch env wfc CLOSE_CLIENT commandArgs =
     Inr (wfc\<lparr>myrtille := (myrtille wfc)\<lparr>processInputs := False\<rparr>\<rparr>)"

text \<open>
  \<^verbatim>\<open>commandMap[key]\<close>: \<^verbatim>\<open>operator[]\<close> of \<^verbatim>\<open>std::map\<close> gives the value stored
  under the key; for a key that is not in the map it first inserts the key with a
  value-initialised \<^verbatim>\<open>COMMAND\<close> and gives that.
\<close>

definition commandMap_index :: "(string \<rightharpoonup> COMMAND) \<Rightarrow> string \<Rightarrow> COMMAND \<times> (string \<rightharpoonup> COMMAND)" where
  "commandMap_index cm key =
    (case cm key of
       Some command \<Rightarrow> (command, cm)
     | None \<Rightarrow> (COMMAND_zero, cm(key \<mapsto> COMMAND_zero)))"

text \<open>
  A payload that was read: its first three characters name the command, the rest is the
  argument (\<^verbatim>\<open>substr(3, ...)\<close> throws on a payload of fewer than three characters).
\<close>

definition processMessage :: "'f env \<Rightarrow> 'f wfContext \<Rightarrow> string \<Rightarrow> fault + 'f wfContext" where
  "processMessage env wfc message =
    (case commandMap_index (commandMap (myrtille wfc)) (take 3 message) of
       (command, cm) \<Rightarrow>
         if length message < 3 then Inl out_of_range
         else dispatch env (wfc\<lparr>myrtille := (myrtille wfc)\<lparr>commandMap := cm\<rparr>\<rparr>)
                command (drop 3 message))"

subsection \<open>The reader loop of \<^verbatim>\<open>processInputsPipe\<close>\<close>

text \<open>
  What a call of \<^verbatim>\<open>ReadFile\<close> on the inputs pipe gives: a failure, or the bytes it put
  in the buffer (never more than were asked for). The loop is run against the list of the
  results of its successive reads; where the list ends, the next read has not returned.
\<close>

datatype ReadFile_result = ReadFile_failed | ReadFile_read "byte list"

definition bytes_to_string :: "byte list \<Rightarrow> string" where
  "bytes_to_string bs = map (\<lambda>b. char_of (unat b)) bs"

definition string_to_bytes :: "string \<Rightarrow> byte list" where
  "string_to_bytes s = map (\<lambda>c. of_char c) s"

text \<open>One turn of the loop: the state is the context, \<open>sizeHeader\<close> and \<open>bytesToRead\<close>.\<close>

definition processInputsPipe_turn ::
  "'f env \<Rightarrow> 'f wfContext \<times> bool \<times> nat \<Rightarrow> ReadFile_result \<Rightarrow> fault + 'f wfContext \<times> bool \<times> nat" where
  "processInputsPipe_turn env state r =
    (case state of (wfc, sizeHeader, bytesToRead0) \<Rightarrow>
      (let bytesToRead = (if sizeHeader then 4 else bytesToRead0)
       in case r of
            ReadFile_failed \<Rightarrow>
              Inr (wfc\<lparr>myrtille := (myrtille wfc)\<lparr>processInputs := False\<rparr>\<rparr>, sizeHeader, bytesToRead)
          | ReadFile_read bs \<Rightarrow>
              (let read = take bytesToRead bs;
                   buffer = read @ replicate (bytesToRead - length read) (fresh_byte env)
               in if length read > 0
                  then
                    (if sizeHeader
                     then Inr (wfc, False, nat (bytesToInt32 buffer mod 4294967296))
                     else (case processMessage env wfc (bytes_to_string read) of
                             Inl e \<Rightarrow> Inl e
                           | Inr wfc1 \<Rightarrow> Inr (wfc1, True, bytesToRead)))
                  else Inr (wfc, sizeHeader, bytesToRead))))"

fun processInputsPipe_loop ::
  "'f env \<Rightarrow> 'f wfContext \<times> bool \<times> nat \<Rightarrow> ReadFile_result list \<Rightarrow> fault + 'f wfContext \<times> bool \<times> nat" where
  "processInputsPipe_loop env state [] = Inr state"
| "processInputsPipe_loop env state (r # rs) =
     (if \<not> processInputs (myrtille (fst state)) then Inr state
      else (case processInputsPipe_turn env state r of
              Inl e \<Rightarrow> Inl e
            | Inr state1 \<Rightarrow> processInputsPipe_loop env state1 rs))"

definition processInputsPipe ::
  "'f env \<Rightarrow> 'f wfContext \<Rightarrow> ReadFile_result list \<Rightarrow> fault + 'f wfContext \<times> bool \<times> nat" where
  "processInputsPipe env wfc reads = processInputsPipe_loop env (wfc, True, 0) reads"

subsection \<open>Notions of the specification\<close>





text \<open>A little-endian unsigned 32-bit integer, and the \<open>k\<close>-th 4-byte field of a message.\<close>

definition le32 :: "byte list \<Rightarrow> nat" where
  "le32 bs = unat (bs ! 0) + 256 * unat (bs ! 1) + 65536 * unat (bs ! 2) + 16777216 * unat (bs ! 3)"

definition message_field :: "nat \<Rightarrow> byte list \<Rightarrow> nat" where
  "message_field k msg = le32 (take 4 (drop (4 * k) msg))"

text \<open>The index an image gets when the counter holds \<open>i\<close>.\<close>

definition next_imageIdx :: "int \<Rightarrow> int" where
  "next_imageIdx i = (if i = INT_MAX then 1 else i + 1)"

subsection \<open>A sample session\<close>

text \<open>
  An environment and a started session on which the theorems below are instantiated. The
  sample arithmetic is exact on rationals, with truncation to integers; the sample codecs
  give fixed streams.
\<close>

definition sample_env :: "rat env" where
  "sample_env =
    \<lparr>float_of_int = of_int,
     float_div = (\<lambda>a b. a / b),
     float_mul = (\<lambda>a b. a * b),
     float_eq = (\<lambda>a b. a = b),
     float_less = (\<lambda>a b. a < b),
     int_of_float = (\<lambda>a. if a < 0 then \<lceil>a\<rceil> else \<lfloor>a\<rfloor>),
     encodePNG = (\<lambda>bmp. [0x89, 0x50, 0x4E, 0x47]),
     encodeJPEG = (\<lambda>bmp quality. [0xFF, 0xD8, 0xFF, 0xE0, 0x00]),
     encodeWEBP = (\<lambda>bmp quality. [0x52, 0x49, 0x46]),
     StretchBlt = (\<lambda>w h x y sw sh. \<lparr>bmp_width = nat w, bmp_height = nat h, bmp_bits = []\<rparr>),
     cursor_bitmap = \<lparr>bmp_width = 2, bmp_height = 1, bmp_bits = [0xff0000ff, 0xffffff00]\<rparr>,
     cursor_hotspot = (0, 0),
     freerdp_parse_username = (\<lambda>user. (Some user, None)),
     ConvertToUnicode = (\<lambda>s. Some (wide s)),
     fresh_byte = 0xCD\<rparr>"

definition sample_settings :: rdpSettings where
  "sample_settings =
    \<lparr>MyrtilleSessionId = Some ''7'',
     DesktopWidth = 1024,
     DesktopHeight = 768,
     ServerHostname = Some ''desk.example.org'',
     ServerPort = 3389,
     VmConnectMode = False,
     NegotiateSecurityLayer = True,
     SendPreconnectionPdu = False,
     PreconnectionBlob = None,
     Domain' = None,
     Username = None,
     Password = None,
     AlternateShell = None\<rparr>"

text \<open>The structure as \<^verbatim>\<open>calloc\<close> gives it, before \<^verbatim>\<open>wf_myrtille_start\<close> fills it.\<close>

definition calloc_wf_myrtille :: "rat wf_myrtille" where
  "calloc_wf_myrtille =
    \<lparr>updatesPipe = [], updatesPipeBroken = False, commandMap = Map.empty,
     processInputs = False, imageEncoding = 0, imageQuality = 0, imageQuantity = 0,
     imageCount = 0, imageIdx = 0,
     imageBuffer = \<lparr>rect_left = 0, rect_top = 0, rect_right = 0, rect_bottom = 0\<rparr>,
     scaleDisplay = False, clientWidth = 0, clientHeight = 0, aspectRatio = 0,
     audioFormat = 0, audioBitrate = 0, screenshotIntervalSecs = 0, screenshotFormat = 0,
     screenshotPath = [], screenshotEnabled = False, clipboardText = []\<rparr>"

definition sample_wfc :: "rat wfContext" where
  "sample_wfc =
    wf_myrtille_start sample_env
      \<lparr>settings = sample_settings, primary_hdc = True, cliprdr = True,
       input_UnicodeKeyboardEvent = True, input_KeyboardEvent = True, input_MouseEvent = True,
       myrtille = calloc_wf_myrtille, effects = []\<rparr>"

section \<open>Arithmetic of the model\<close>



lemma wrap32_id: "INT_MIN \<le> x \<Longrightarrow> x \<le> INT_MAX \<Longrightarrow> wrap32 x = x"
  by (simp add: wrap32_def INT_MIN_def INT_MAX_def)




section \<open>The sample session\<close>

lemma sample_myrtille_fields:
  "imageQuantity (myrtille sample_wfc) = 100"
  "imageQuality (myrtille sample_wfc) = 50"
  "imageEncoding (myrtille sample_wfc) = 0"
  "imageCount (myrtille sample_wfc) = 0"
  "imageIdx (myrtille sample_wfc) = 0"
  "imageBuffer (myrtille sample_wfc) = unset_RECT"
  "updatesPipe (myrtille sample_wfc) = []"
  "updatesPipeBroken (myrtille sample_wfc) = False"
  "scaleDisplay (myrtille sample_wfc) = False"
  "screenshotEnabled (myrtille sample_wfc) = False"
  "settings sample_wfc = sample_settings"
  "primary_hdc sample_wfc = True"
  by (simp_all add: sample_wfc_def wf_myrtille_start_def sample_settings_def calloc_wf_myrtille_def
      IMAGE_COUNT_SAMPLING_RATE_def IMAGE_QUALITY_HIGH_def IMAGE_ENCODING_AUTO_def)


lemma sample_env_fields:
  "encodePNG sample_env bmp = [0x89, 0x50, 0x4E, 0x47]"
  "encodeJPEG sample_env bmp q = [0xFF, 0xD8, 0xFF, 0xE0, 0x00]"
  "encodeWEBP sample_env bmp q = [0x52, 0x49, 0x46]"
  "fresh_byte sample_env = 0xCD"
  by (simp_all add: sample_env_def)

lemma sample_env_float:
  "float_of_int sample_env n = of_int n"
  "float_div sample_env x y = x / y"
  "float_mul sample_env x y = x * y"
  "float_eq sample_env x y \<longleftrightarrow> x = y"
  "float_less sample_env x y \<longleftrightarrow> x < y"
  "int_of_float sample_env x = (if x < 0 then \<lceil>x\<rceil> else \<lfloor>x\<rfloor>)"
  by (simp_all add: sample_env_def)


section \<open>Regions refused by the consistency check\<close>

text \<open>
  Claim C10. A region with \<open>left > right\<close> or \<open>top > bottom\<close>, with a negative coordinate,
  or with a coordinate beyond the desktop's width or height, makes
  \<^verbatim>\<open>wf_myrtille_send_region\<close> return at once: the context it leaves is the one it
  found, so the event counter, the accumulator, every other field and the updates pipe are
  as before.
\<close>

theorem send_region_inconsistent_noop:
  assumes "rect_left region > rect_right region \<or> rect_top region > rect_bottom region \<or>
           rect_left region < 0 \<or> rect_top region < 0 \<or>
           rect_right region < 0 \<or> rect_bottom region < 0 \<or>
           rect_left region > DesktopWidth (settings wfc) \<or>
           rect_right region > DesktopWidth (settings wfc) \<or>
           rect_top region > DesktopHeight (settings wfc) \<or>
           rect_bottom region > DesktopHeight (settings wfc)"
  shows "wf_myrtille_send_region env wfc region = Inr wfc"
proof -
  from assms have "region_inconsistent (settings wfc) region"
    unfolding region_inconsistent_def by blast
  then show ?thesis by (simp add: wf_myrtille_send_region_def)
qed

theorem send_region_inconsistent_noop_witness:
  "wf_myrtille_send_region sample_env sample_wfc
     \<lparr>rect_left = 40, rect_top = 10, rect_right = 30, rect_bottom = 20\<rparr> = Inr sample_wfc \<and>
   wf_myrtille_send_region sample_env sample_wfc
     \<lparr>rect_left = 0, rect_top = 10, rect_right = 1025, rect_bottom = 20\<rparr> = Inr sample_wfc"
  using send_region_inconsistent_noop [of "\<lparr>rect_left = 40, rect_top = 10, rect_right = 30, rect_bottom = 20\<rparr>"
      sample_wfc sample_env]
    send_region_inconsistent_noop [of "\<lparr>rect_left = 0, rect_top = 10, rect_right = 1025, rect_bottom = 20\<rparr>"
      sample_wfc sample_env]
  by (simp add: sample_myrtille_fields sample_settings_def)

section \<open>Framing of image messages\<close>

subsection \<open>Four bytes, little-endian\<close>

lemma length_int32ToBytes [simp]: "length (int32ToBytes v offset bytes) = length bytes"
  by (simp add: int32ToBytes_def)

lemma and_255: "(v::int) AND 255 = v mod 256"
proof -
  have "(255::int) = mask 8" by (simp add: mask_eq_exp_minus_1)
  then have "v AND 255 = take_bit 8 v" by (simp add: take_bit_eq_mask)
  then show ?thesis by (simp add: take_bit_eq_mod)
qed

lemma unat_byte_of_int: "unat (word_of_int (v AND 255) :: byte) = nat (v mod 256)"
  by (simp add: and_255 unat_eq_nat_uint uint_word_of_int)

lemma le_digits:
  fixes v :: int
  shows "v mod 256 + 256 * (v div 256 mod 256) + 65536 * (v div 65536 mod 256) +
         16777216 * (v div 16777216 mod 256) = v mod 4294967296"
proof -
  have a: "v mod 4294967296 = 256 * ((v div 256) mod 16777216) + v mod 256"
    using zmod_zmult2_eq [of 16777216 v 256] by simp
  have b: "(v div 256) mod 16777216 = 256 * ((v div 256 div 256) mod 65536) + (v div 256) mod 256"
    using zmod_zmult2_eq [of 65536 "v div 256" 256] by simp
  have c: "(v div 65536) mod 65536 = 256 * ((v div 65536 div 256) mod 256) + (v div 65536) mod 256"
    using zmod_zmult2_eq [of 256 "v div 65536" 256] by simp
  have d: "v div 256 div 256 = v div 65536" "v div 65536 div 256 = v div 16777216"
    using zdiv_zmult2_eq [of 256 v 256] zdiv_zmult2_eq [of 256 v 65536] by simp_all
  show ?thesis unfolding a b d c d by simp
qed


lemma le32_int32ToBytes:
  "le32 (int32ToBytes v 0 [a, b, c, d]) = nat (v mod 4294967296)"
proof -
  have "int (le32 (int32ToBytes v 0 [a, b, c, d])) =
        v mod 256 + 256 * (v div 256 mod 256) + 65536 * (v div 65536 mod 256) +
         16777216 * (v div 16777216 mod 256)"
    by (simp add: le32_def int32ToBytes_def unat_byte_of_int drop_bit_eq_div)
  then show ?thesis by (simp add: le_digits)
qed

lemma nth_int32ToBytes:
  "offset + 3 < length bytes \<Longrightarrow>
   int32ToBytes v offset bytes ! i =
     (if i = offset + 3 then word_of_int (drop_bit 24 v AND 255)
      else if i = offset + 2 then word_of_int (drop_bit 16 v AND 255)
      else if i = offset + 1 then word_of_int (drop_bit 8 v AND 255)
      else if i = offset then word_of_int (v AND 255)
      else bytes ! i)"
  by (simp add: int32ToBytes_def nth_list_update)

lemma message_field_nth:
  "4 * k + 4 \<le> length msg \<Longrightarrow>
   message_field k msg = le32 [msg ! (4 * k), msg ! (4 * k + 1), msg ! (4 * k + 2), msg ! (4 * k + 3)]"
  by (simp add: message_field_def le32_def)

lemma le32_bytes_of:
  "le32 [word_of_int (v AND 255), word_of_int (drop_bit 8 v AND 255),
         word_of_int (drop_bit 16 v AND 255), word_of_int (drop_bit 24 v AND 255)] =
   nat (v mod 4294967296)"
  using le32_int32ToBytes [of v 0 0 0 0] by (simp add: int32ToBytes_def)


subsection \<open>The buffer of \<^verbatim>\<open>sendImage\<close>\<close>

lemma sendImage_buffer_length:
  "length (sendImage_buffer env idx posX posY width height format quality stream size' fullscreen) =
     nat size' + 40"
  by (simp add: sendImage_buffer_def Let_def)

lemma sendImage_buffer_payload:
  "size' = int (length stream) \<Longrightarrow>
   drop 40 (sendImage_buffer env idx posX posY width height format quality stream size' fullscreen) = stream"
  by (simp add: sendImage_buffer_def Let_def)

lemma sendImage_buffer_field:
  fixes env :: "'f env" and idx posX posY width height format quality size' :: int
    and stream :: "byte list" and fullscreen :: bool
  defines "msg \<equiv> sendImage_buffer env idx posX posY width height format quality stream size' fullscreen"
  shows "message_field 0 msg = nat ((size' + 36) mod 4294967296)"
    and "message_field 1 msg = 0"
    and "message_field 2 msg = nat (idx mod 4294967296)"
    and "message_field 3 msg = nat (posX mod 4294967296)"
    and "message_field 4 msg = nat (posY mod 4294967296)"
    and "message_field 5 msg = nat (width mod 4294967296)"
    and "message_field 6 msg = nat (height mod 4294967296)"
    and "message_field 7 msg = nat (format mod 4294967296)"
    and "message_field 8 msg = nat (quality mod 4294967296)"
    and "message_field 9 msg = (if fullscreen then 1 else 0)"
proof -
  have len: "length msg = nat size' + 40"
    by (simp add: msg_def sendImage_buffer_length)
  have f: "message_field k msg =
             le32 [msg ! (4 * k), msg ! (4 * k + 1), msg ! (4 * k + 2), msg ! (4 * k + 3)]"
    if "k < 10" for k
    using that len by (intro message_field_nth) simp
  show "message_field 0 msg = nat ((size' + 36) mod 4294967296)"
    by (simp add: f) (simp add: msg_def sendImage_buffer_def Let_def nth_append nth_int32ToBytes le32_bytes_of)
  show "message_field 1 msg = 0"
    by (simp add: f) (simp add: msg_def sendImage_buffer_def Let_def nth_append nth_int32ToBytes le32_def)
  show "message_field 2 msg = nat (idx mod 4294967296)"
    by (simp add: f) (simp add: msg_def sendImage_buffer_def Let_def nth_append nth_int32ToBytes le32_bytes_of)
  show "message_field 3 msg = nat (posX mod 4294967296)"
    by (simp add: f) (simp add: msg_def sendImage_buffer_def Let_def nth_append nth_int32ToBytes le32_bytes_of)
  show "message_field 4 msg = nat (posY mod 4294967296)"
    by (simp add: f) (simp add: msg_def sendImage_buffer_def Let_def nth_append nth_int32ToBytes le32_bytes_of)
  show "message_field 5 msg = nat (width mod 4294967296)"
    by (simp add: f) (simp add: msg_def sendImage_buffer_def Let_def nth_append nth_int32ToBytes le32_bytes_of)
  show "message_field 6 msg = nat (height mod 4294967296)"
    by (simp add: f) (simp add: msg_def sendImage_buffer_def Let_def nth_append nth_int32ToBytes le32_bytes_of)
  show "message_field 7 msg = nat (format mod 4294967296)"
    by (simp add: f) (simp add: msg_def sendImage_buffer_def Let_def nth_append nth_int32ToBytes le32_bytes_of)
  show "message_field 8 msg = nat (quality mod 4294967296)"
    by (simp add: f) (simp add: msg_def sendImage_buffer_def Let_def nth_append nth_int32ToBytes le32_bytes_of)
  show "message_field 9 msg = (if fullscreen then 1 else 0)"
    by (simp add: f) (simp add: msg_def sendImage_buffer_def Let_def nth_append nth_int32ToBytes le32_def)
qed


lemma myrtille_takeScreenshot [simp]: "myrtille (takeScreenshot wfc bmp) = myrtille wfc"
  by (simp add: takeScreenshot_def)

lemma sendImage_updatesPipe:
  "updatesPipe (myrtille (sendImage env wfc bmp idx posX posY width height format quality stream size' fullscreen)) =
     (if updatesPipeBroken (myrtille wfc) then updatesPipe (myrtille wfc)
      else updatesPipe (myrtille wfc) @
             [sendImage_buffer env idx posX posY width height format quality stream size' fullscreen])"
  by (simp add: sendImage_def WriteFile_updatesPipe_def Let_def)

lemma sendImage_imageIdx [simp]:
  "imageIdx (myrtille (sendImage env wfc bmp idx posX posY width height format quality stream size' fullscreen)) =
     imageIdx (myrtille wfc)"
  by (simp add: sendImage_def WriteFile_updatesPipe_def Let_def)

text \<open>
  Claim C8. While the updates pipe takes the write, \<^verbatim>\<open>sendImage\<close> called with the size
  of its stream (as both of its callers do) appends one buffer to the pipe: 40 bytes of
  header and the stream. Read as little-endian 32-bit fields, the header holds the length
  of the payload plus 36, the tag 0, then the index, x, y, width, height, format and quality
  (each in two's complement) and 1 or 0 for fullscreen. The payload is taken to be short
  enough for its length plus 36 to fit 32 bits.
\<close>

theorem image_message_layout:
  assumes "\<not> updatesPipeBroken (myrtille wfc)"
    and "size' = int (length stream)"
    and "length stream + 36 < 4294967296"
  shows "let msg = sendImage_buffer env idx posX posY width height format quality stream size' fullscreen
         in updatesPipe (myrtille (sendImage env wfc bmp idx posX posY width height format quality
                                     stream size' fullscreen)) = updatesPipe (myrtille wfc) @ [msg] \<and>
            length msg = length stream + 40 \<and>
            message_field 0 msg = length stream + 36 \<and>
            message_field 1 msg = 0 \<and>
            message_field 2 msg = nat (idx mod 4294967296) \<and>
            message_field 3 msg = nat (posX mod 4294967296) \<and>
            message_field 4 msg = nat (posY mod 4294967296) \<and>
            message_field 5 msg = nat (width mod 4294967296) \<and>
            message_field 6 msg = nat (height mod 4294967296) \<and>
            message_field 7 msg = nat (format mod 4294967296) \<and>
            message_field 8 msg = nat (quality mod 4294967296) \<and>
            message_field 9 msg = (if fullscreen then 1 else 0) \<and>
            drop 40 msg = stream"
proof -
  define msg where
    "msg = sendImage_buffer env idx posX posY width height format quality stream size' fullscreen"
  have "(size' + 36) mod 4294967296 = int (length stream) + 36"
    using assms(2,3) by simp
  then have total: "message_field 0 msg = length stream + 36"
    unfolding msg_def sendImage_buffer_field by linarith
  have pipe: "updatesPipe (myrtille (sendImage env wfc bmp idx posX posY width height format quality
                  stream size' fullscreen)) = updatesPipe (myrtille wfc) @ [msg]"
    using assms(1) by (simp add: msg_def sendImage_updatesPipe)
  have len: "length msg = length stream + 40"
    using assms(2) by (simp add: msg_def sendImage_buffer_length)
  have payload: "drop 40 msg = stream"
    using assms(2) unfolding msg_def by (rule sendImage_buffer_payload)
  note fields = sendImage_buffer_field(2-10)
      [of env idx posX posY width height format quality stream size' fullscreen, folded msg_def]
  show ?thesis
    unfolding Let_def msg_def [symmetric]
    by (intro conjI pipe len total payload fields)
qed

lemma sample_image_bytes:
  "sendImage_buffer sample_env 7 1 2 3 4 1 100 [0x89, 0x50, 0x4E] 3 True =
     [39, 0, 0, 0,  0, 0, 0, 0,  7, 0, 0, 0,  1, 0, 0, 0,  2, 0, 0, 0,  3, 0, 0, 0,  4, 0, 0, 0,
      1, 0, 0, 0,  100, 0, 0, 0,  1, 0, 0, 0,  0x89, 0x50, 0x4E]"
  by code_simp

theorem image_message_layout_witness:
  "updatesPipe (myrtille (sendImage sample_env sample_wfc
       \<lparr>bmp_width = 3, bmp_height = 4, bmp_bits = []\<rparr> 7 1 2 3 4 1 100 [0x89, 0x50, 0x4E] 3 True)) =
     [[39, 0, 0, 0,  0, 0, 0, 0,  7, 0, 0, 0,  1, 0, 0, 0,  2, 0, 0, 0,  3, 0, 0, 0,  4, 0, 0, 0,
       1, 0, 0, 0,  100, 0, 0, 0,  1, 0, 0, 0,  0x89, 0x50, 0x4E]] \<and>
   message_field 0 (sendImage_buffer sample_env 7 1 2 3 4 1 100 [0x89, 0x50, 0x4E] 3 True) = 39 \<and>
   message_field 2 (sendImage_buffer sample_env 7 1 2 3 4 1 100 [0x89, 0x50, 0x4E] 3 True) = 7 \<and>
   message_field 9 (sendImage_buffer sample_env 7 1 2 3 4 1 100 [0x89, 0x50, 0x4E] 3 True) = 1"
  using image_message_layout [of sample_wfc 3 "[0x89, 0x50, 0x4E]" sample_env 7 1 2 3 4 1 100 True
      "\<lparr>bmp_width = 3, bmp_height = 4, bmp_bits = []\<rparr>"]
  unfolding Let_def sample_image_bytes
  by (simp add: sample_myrtille_fields)

section \<open>The sequence index of images\<close>

subsection \<open>The next index\<close>

lemma next_imageIdx_wrap32:
  assumes "0 \<le> i" "i \<le> INT_MAX"
  shows "wrap32 ((if i = INT_MAX then 0 else i) + 1) = next_imageIdx i"
proof (cases "i = INT_MAX")
  case True
  then show ?thesis by (simp add: next_imageIdx_def wrap32_def)
next
  case False
  with assms have "wrap32 (i + 1) = i + 1"
    by (intro wrap32_id) (simp_all add: INT_MIN_def INT_MAX_def)
  with False show ?thesis by (simp add: next_imageIdx_def)
qed

lemma next_imageIdx_range:
  assumes "0 \<le> i" "i \<le> INT_MAX"
  shows "1 \<le> next_imageIdx i" "next_imageIdx i \<le> INT_MAX"
  using assms by (auto simp: next_imageIdx_def INT_MAX_def)

subsection \<open>\<^verbatim>\<open>processImage\<close> in terms of the stream it selects\<close>

lemma processImage_selected:
  assumes "select_stream env (myrtille wfc) bmp (initial_quality (myrtille wfc) fullscreen adaptive) =
             (Some s, format, quality, size')"
    and "0 < size'"
    and "0 \<le> imageIdx (myrtille wfc)" "imageIdx (myrtille wfc) \<le> INT_MAX"
  shows "processImage env wfc bmp left top' right bottom fullscreen adaptive =
           sendImage env
             (wfc\<lparr>myrtille := (myrtille wfc)\<lparr>imageIdx := next_imageIdx (imageIdx (myrtille wfc))\<rparr>\<rparr>)
             bmp (next_imageIdx (imageIdx (myrtille wfc))) left top' (right - left) (bottom - top')
             format quality s (int size') fullscreen"
  using assms next_imageIdx_wrap32 [OF assms(3,4)]
  by (auto simp: processImage_def Let_def)

lemma processImage_not_selected:
  assumes "select_stream env (myrtille wfc) bmp (initial_quality (myrtille wfc) fullscreen adaptive) =
             (stream, format, quality, size')"
    and "stream = None \<or> size' = 0"
  shows "updatesPipe (myrtille (processImage env wfc bmp left top' right bottom fullscreen adaptive)) =
           updatesPipe (myrtille wfc)"
  using assms by (auto simp: processImage_def Let_def split: option.splits)

lemma processImage_pipe_cases:
  assumes "0 \<le> imageIdx (myrtille wfc)" "imageIdx (myrtille wfc) \<le> INT_MAX"
  shows "updatesPipe (myrtille (processImage env wfc bmp left top' right bottom fullscreen adaptive)) =
           updatesPipe (myrtille wfc) \<or>
         (\<exists>format quality s.
            updatesPipe (myrtille (processImage env wfc bmp left top' right bottom fullscreen adaptive)) =
              updatesPipe (myrtille wfc) @
                [sendImage_buffer env (next_imageIdx (imageIdx (myrtille wfc))) left top'
                   (right - left) (bottom - top') format quality s (int (length s)) fullscreen] \<and>
            imageIdx (myrtille (processImage env wfc bmp left top' right bottom fullscreen adaptive)) =
              next_imageIdx (imageIdx (myrtille wfc)))"
proof -
  obtain stream format quality size' where
    sel: "select_stream env (myrtille wfc) bmp (initial_quality (myrtille wfc) fullscreen adaptive) =
             (stream, format, quality, size')"
    by (metis prod_cases4)
  show ?thesis
  proof (cases "stream = None \<or> size' = 0")
    case True
    with sel show ?thesis by (simp add: processImage_not_selected)
  next
    case False
    then obtain s where s: "stream = Some s" "0 < size'" by auto
    have sz: "size' = length s"
      using sel s by (auto simp: select_stream_def Let_def split: if_splits)
    show ?thesis
      using sel s sz assms
      by (auto simp: processImage_selected sendImage_updatesPipe)
  qed
qed


lemma index_field:
  assumes "0 \<le> i" "i \<le> INT_MAX"
  shows "int (message_field 2 (sendImage_buffer env (next_imageIdx i) posX posY width height format
                                 quality stream size' fullscreen)) = next_imageIdx i"
proof -
  have "1 \<le> next_imageIdx i" "next_imageIdx i \<le> INT_MAX"
    using assms by (rule next_imageIdx_range)+
  then have "next_imageIdx i mod 4294967296 = next_imageIdx i"
    by (simp add: INT_MAX_def)
  then show ?thesis by (simp add: sendImage_buffer_field)
qed

lemma processImage_index:
  assumes "0 \<le> imageIdx (myrtille wfc)" "imageIdx (myrtille wfc) \<le> INT_MAX"
    and "wfc' = processImage env wfc bmp left top' right bottom fullscreen adaptive"
    and "updatesPipe (myrtille wfc') \<noteq> updatesPipe (myrtille wfc)"
  shows "\<exists>msg. updatesPipe (myrtille wfc') = updatesPipe (myrtille wfc) @ [msg] \<and>
               int (message_field 2 msg) = next_imageIdx (imageIdx (myrtille wfc)) \<and>
               imageIdx (myrtille wfc') = next_imageIdx (imageIdx (myrtille wfc))"
  using processImage_pipe_cases [OF assms(1,2), of env bmp left top' right bottom fullscreen adaptive]
    assms(3,4) index_field [OF assms(1,2)]
  by auto

lemma processImage_imageIdx_range:
  assumes "0 \<le> imageIdx (myrtille wfc)" "imageIdx (myrtille wfc) \<le> INT_MAX"
  shows "0 \<le> imageIdx (myrtille (processImage env wfc bmp left top' right bottom fullscreen adaptive))"
    and "imageIdx (myrtille (processImage env wfc bmp left top' right bottom fullscreen adaptive)) \<le> INT_MAX"
proof -
  let ?p = "processImage env wfc bmp left top' right bottom fullscreen adaptive"
  obtain stream format quality size' where
    sel: "select_stream env (myrtille wfc) bmp (initial_quality (myrtille wfc) fullscreen adaptive) =
             (stream, format, quality, size')"
    by (metis prod_cases4)
  have "imageIdx (myrtille ?p) = next_imageIdx (imageIdx (myrtille wfc)) \<or>
        imageIdx (myrtille ?p) = (if imageIdx (myrtille wfc) = INT_MAX then 0 else imageIdx (myrtille wfc))"
  proof (cases "stream = None \<or> size' = 0")
    case True
    with sel show ?thesis by (auto simp: processImage_def Let_def split: option.splits)
  next
    case False
    then obtain s where s: "stream = Some s" "0 < size'" by auto
    show ?thesis
      using sel s assms by (simp add: processImage_selected sendImage_imageIdx)
  qed
  with assms next_imageIdx_range [OF assms]
  show "0 \<le> imageIdx (myrtille ?p)" "imageIdx (myrtille ?p) \<le> INT_MAX"
    by (auto simp: INT_MAX_def split: if_splits)
qed

subsection \<open>The three senders\<close>

lemma ips_regulator_frame:
  "imageIdx (fst (ips_regulator m region)) = imageIdx m"
  "updatesPipe (fst (ips_regulator m region)) = updatesPipe m"
  "updatesPipeBroken (fst (ips_regulator m region)) = updatesPipeBroken m"
  "imageEncoding (fst (ips_regulator m region)) = imageEncoding m"
  "imageQuality (fst (ips_regulator m region)) = imageQuality m"
proof -
  define m1 where "m1 = (if imageCount m = INT_MAX then m\<lparr>imageCount := 0\<rparr> else m)"
  define m2 where "m2 = m1\<lparr>imageCount := wrap32 (imageCount m1 + 1)\<rparr>"
  define m3 where "m3 = m2\<lparr>imageBuffer := extend_imageBuffer (imageBuffer m2) region\<rparr>"
  have "fst (ips_regulator m region) = m2 \<or> fst (ips_regulator m region) = m3 \<or>
        fst (ips_regulator m region) = m3\<lparr>imageBuffer := unset_RECT\<rparr>"
    unfolding ips_regulator_def m3_def m2_def m1_def Let_def
    by (simp only: fst_conv if_distrib [of fst] split: if_split) blast
  moreover have "imageIdx m2 = imageIdx m" "updatesPipe m2 = updatesPipe m"
    "updatesPipeBroken m2 = updatesPipeBroken m" "imageEncoding m2 = imageEncoding m"
    "imageQuality m2 = imageQuality m"
    by (simp_all add: m2_def m1_def)
  ultimately show
    "imageIdx (fst (ips_regulator m region)) = imageIdx m"
    "updatesPipe (fst (ips_regulator m region)) = updatesPipe m"
    "updatesPipeBroken (fst (ips_regulator m region)) = updatesPipeBroken m"
    "imageEncoding (fst (ips_regulator m region)) = imageEncoding m"
    "imageQuality (fst (ips_regulator m region)) = imageQuality m"
    by (auto simp: m3_def)
qed

lemma send_region_elim:
  assumes "wf_myrtille_send_region env wfc region = Inr wfc'"
  obtains "updatesPipe (myrtille wfc') = updatesPipe (myrtille wfc)"
      and "imageIdx (myrtille wfc') = imageIdx (myrtille wfc)"
  | bmp left top' right bottom where
      "wfc' = processImage env (wfc\<lparr>myrtille := fst (ips_regulator (myrtille wfc) region)\<rparr>)
                bmp left top' right bottom False False"
proof (cases "MyrtilleSessionId (settings wfc) = None \<or> \<not> primary_hdc wfc \<or>
              region_inconsistent (settings wfc) region")
  case True
  with assms have "wfc' = wfc" by (auto simp: wf_myrtille_send_region_def split: if_splits)
  then show thesis by (intro that(1)) simp_all
next
  case False
  then have go: "(MyrtilleSessionId (settings wfc) = None) = False" "primary_hdc wfc"
    "\<not> region_inconsistent (settings wfc) region"
    by simp_all
  let ?m = "fst (ips_regulator (myrtille wfc) region)"
  show thesis
  proof (cases "snd (ips_regulator (myrtille wfc) region)")
    case None
    with go assms have "wfc' = wfc\<lparr>myrtille := ?m\<rparr>"
      by (clarsimp simp: wf_myrtille_send_region_def split_beta)
    then show thesis by (intro that(1)) (simp_all add: ips_regulator_frame)
  next
    case (Some region1)
    with go assms have "\<exists>bmp left top' right bottom.
        wfc' = processImage env (wfc\<lparr>myrtille := ?m\<rparr>) bmp left top' right bottom False False"
      by (clarsimp simp: wf_myrtille_send_region_def split_beta split: sum.splits) blast
    then show thesis using that(2) by blast
  qed
qed

lemma send_cursor_elim:
  assumes "0 \<le> imageIdx (myrtille wfc)" "imageIdx (myrtille wfc) \<le> INT_MAX"
  obtains "updatesPipe (myrtille (wf_myrtille_send_cursor env wfc)) = updatesPipe (myrtille wfc)"
      and "0 \<le> imageIdx (myrtille (wf_myrtille_send_cursor env wfc))"
      and "imageIdx (myrtille (wf_myrtille_send_cursor env wfc)) \<le> INT_MAX"
  | bmp posX posY width height s where
      "wf_myrtille_send_cursor env wfc =
         sendImage env
           (wfc\<lparr>myrtille := (myrtille wfc)\<lparr>imageIdx := next_imageIdx (imageIdx (myrtille wfc))\<rparr>\<rparr>)
           bmp (next_imageIdx (imageIdx (myrtille wfc))) posX posY width height
           IMAGE_FORMAT_CUR IMAGE_QUALITY_HIGHEST s (int (length s)) False"
proof -
  let ?bmp = "(cursor_bitmap env)\<lparr>bmp_bits := map cursor_pixel (bmp_bits (cursor_bitmap env))\<rparr>"
  let ?png = "encodePNG env ?bmp"
  let ?send = "MyrtilleSessionId (settings wfc) \<noteq> None \<and> primary_hdc wfc \<and>
     (\<exists>c \<in> set (bmp_bits (cursor_bitmap env)). cursor_is_mask c) \<and>
     (\<exists>c \<in> set (bmp_bits (cursor_bitmap env)). \<not> cursor_is_mask c) \<and> ?png \<noteq> []"
  show thesis
  proof (cases ?send)
    case True
    then have "wf_myrtille_send_cursor env wfc =
         sendImage env
           (wfc\<lparr>myrtille := (myrtille wfc)\<lparr>imageIdx := next_imageIdx (imageIdx (myrtille wfc))\<rparr>\<rparr>)
           ?bmp (next_imageIdx (imageIdx (myrtille wfc)))
           (fst (cursor_hotspot env)) (snd (cursor_hotspot env))
           (int (bmp_width ?bmp)) (int (bmp_height ?bmp))
           IMAGE_FORMAT_CUR IMAGE_QUALITY_HIGHEST ?png (int (length ?png)) False"
      using next_imageIdx_wrap32 [OF assms]
      by (auto simp: wf_myrtille_send_cursor_def Let_def)
    then show thesis by (rule that(2))
  next
    case False
    let ?c = "wf_myrtille_send_cursor env wfc"
    from False have "?c = wfc \<or> ?c = wfc\<lparr>myrtille := (myrtille wfc)\<lparr>imageIdx := 0\<rparr>\<rparr>"
      by (auto simp: wf_myrtille_send_cursor_def Let_def)
    then have "updatesPipe (myrtille ?c) = updatesPipe (myrtille wfc)"
      "0 \<le> imageIdx (myrtille ?c)" "imageIdx (myrtille ?c) \<le> INT_MAX"
      using assms by (auto simp: INT_MAX_def)
    then show thesis by (rule that(1))
  qed
qed

lemma sendImage_index:
  assumes "0 \<le> i" "i \<le> INT_MAX"
    and "wfc' = sendImage env (wfc\<lparr>myrtille := (myrtille wfc)\<lparr>imageIdx := next_imageIdx i\<rparr>\<rparr>)
                  bmp (next_imageIdx i) posX posY width height format quality s size' fullscreen"
    and "updatesPipe (myrtille wfc') \<noteq> updatesPipe (myrtille wfc)"
  shows "\<exists>msg. updatesPipe (myrtille wfc') = updatesPipe (myrtille wfc) @ [msg] \<and>
               int (message_field 2 msg) = next_imageIdx i \<and>
               imageIdx (myrtille wfc') = next_imageIdx i"
  using assms(3,4) index_field [OF assms(1,2)]
  by (auto simp: sendImage_updatesPipe split: if_splits)

text \<open>
  Claim C5, as amended. Let the image counter be within \<open>0 .. INT_MAX\<close>, as it is when the
  session starts. After a region update, a fullscreen update or a cursor update it is within
  \<open>0 .. INT_MAX\<close> again. If the update writes to the updates pipe, it writes exactly one
  message; the index in the message is the counter plus one, or 1 when the counter held
  \<open>INT_MAX\<close> (the counter is reset to 0 and incremented before it is sent, so 0 is never
  carried); the counter then holds the index sent; and that index lies within \<open>1 .. INT_MAX\<close>,
  so it is never negative.
\<close>

theorem image_index_sequence:
  assumes "0 \<le> imageIdx (myrtille wfc)" and "imageIdx (myrtille wfc) \<le> INT_MAX"
    and "wf_myrtille_send_region env wfc region = Inr wfc' \<or>
         wf_myrtille_send_screen env wfc adaptive = wfc' \<or>
         wf_myrtille_send_cursor env wfc = wfc'"
  shows "0 \<le> imageIdx (myrtille wfc') \<and> imageIdx (myrtille wfc') \<le> INT_MAX \<and>
         (updatesPipe (myrtille wfc') \<noteq> updatesPipe (myrtille wfc) \<longrightarrow>
            (\<exists>msg. updatesPipe (myrtille wfc') = updatesPipe (myrtille wfc) @ [msg] \<and>
               int (message_field 2 msg) = next_imageIdx (imageIdx (myrtille wfc)) \<and>
               imageIdx (myrtille wfc') = next_imageIdx (imageIdx (myrtille wfc)) \<and>
               1 \<le> next_imageIdx (imageIdx (myrtille wfc)) \<and>
               next_imageIdx (imageIdx (myrtille wfc)) \<le> INT_MAX))"
proof -
  let ?i = "imageIdx (myrtille wfc)"
  let ?sent = "\<exists>msg. updatesPipe (myrtille wfc') = updatesPipe (myrtille wfc) @ [msg] \<and>
               int (message_field 2 msg) = next_imageIdx ?i \<and>
               imageIdx (myrtille wfc') = next_imageIdx ?i"
  let ?changed = "updatesPipe (myrtille wfc') \<noteq> updatesPipe (myrtille wfc)"
  have goal: "0 \<le> imageIdx (myrtille wfc') \<and> imageIdx (myrtille wfc') \<le> INT_MAX \<and>
              (?changed \<longrightarrow> ?sent)"
    using assms(3)
  proof (elim disjE)
    assume "wf_myrtille_send_region env wfc region = Inr wfc'"
    then show ?thesis
    proof (cases rule: send_region_elim)
      case 1
      with assms(1,2) show ?thesis by simp
    next
      case (2 bmp left top' right bottom)
      let ?w = "wfc\<lparr>myrtille := fst (ips_regulator (myrtille wfc) region)\<rparr>"
      have w: "0 \<le> imageIdx (myrtille ?w)" "imageIdx (myrtille ?w) \<le> INT_MAX"
        "imageIdx (myrtille ?w) = ?i" "updatesPipe (myrtille ?w) = updatesPipe (myrtille wfc)"
        using assms(1,2) by (simp_all add: ips_regulator_frame)
      have "?sent" if "?changed"
      proof -
        have "\<exists>msg. updatesPipe (myrtille wfc') = updatesPipe (myrtille ?w) @ [msg] \<and>
               int (message_field 2 msg) = next_imageIdx (imageIdx (myrtille ?w)) \<and>
               imageIdx (myrtille wfc') = next_imageIdx (imageIdx (myrtille ?w))"
          using w(1,2) 2 that w(4) by (intro processImage_index) simp_all
        then show ?thesis by (simp only: w(3,4))
      qed
      moreover have "0 \<le> imageIdx (myrtille wfc')" "imageIdx (myrtille wfc') \<le> INT_MAX"
        unfolding 2 by (rule processImage_imageIdx_range [OF w(1,2)])+
      ultimately show ?thesis by blast
    qed
  next
    assume s: "wf_myrtille_send_screen env wfc adaptive = wfc'"
    then consider "wfc' = wfc"
      | bmp right bottom where "wfc' = processImage env wfc bmp 0 0 right bottom True adaptive"
      by (auto simp: wf_myrtille_send_screen_def Let_def split: if_splits)
    then show ?thesis
    proof cases
      case 1
      with assms(1,2) show ?thesis by simp
    next
      case 2
      have "?sent" if "?changed"
        using assms(1,2) 2 that by (intro processImage_index)
      moreover have "0 \<le> imageIdx (myrtille wfc')" "imageIdx (myrtille wfc') \<le> INT_MAX"
        unfolding 2 by (rule processImage_imageIdx_range [OF assms(1,2)])+
      ultimately show ?thesis by blast
    qed
  next
    assume c: "wf_myrtille_send_cursor env wfc = wfc'"
    from assms(1,2) show ?thesis
    proof (cases rule: send_cursor_elim [of wfc env])
      case 1
      with c show ?thesis by simp
    next
      case (2 bmp posX posY width height s)
      with c have e: "wfc' = sendImage env
           (wfc\<lparr>myrtille := (myrtille wfc)\<lparr>imageIdx := next_imageIdx (imageIdx (myrtille wfc))\<rparr>\<rparr>)
           bmp (next_imageIdx (imageIdx (myrtille wfc))) posX posY width height
           IMAGE_FORMAT_CUR IMAGE_QUALITY_HIGHEST s (int (length s)) False"
        by simp
      have "?sent" if "?changed"
        by (rule sendImage_index [OF assms(1,2) e that])
      moreover have "imageIdx (myrtille wfc') = next_imageIdx ?i"
        unfolding e by simp
      ultimately show ?thesis
        using next_imageIdx_range [OF assms(1,2)] by auto
    qed
  qed
  with next_imageIdx_range [OF assms(1,2)] show ?thesis by blast
qed


text \<open>A fullscreen update of the sample session, from any value of the counter.\<close>

lemma sample_screen_pipe:
  "updatesPipe (myrtille (wf_myrtille_send_screen sample_env
      (sample_wfc\<lparr>myrtille := (myrtille sample_wfc)\<lparr>imageIdx := i\<rparr>\<rparr>) adaptive)) =
     [sendImage_buffer sample_env (wrap32 ((if i = INT_MAX then 0 else i) + 1)) 0 0 1024 768
        IMAGE_FORMAT_PNG IMAGE_QUALITY_HIGHEST [0x89, 0x50, 0x4E, 0x47] 4 True]"
  "updatesPipe (myrtille (wf_myrtille_send_screen sample_env sample_wfc adaptive)) =
     [sendImage_buffer sample_env 1 0 0 1024 768
        IMAGE_FORMAT_PNG IMAGE_QUALITY_HIGHEST [0x89, 0x50, 0x4E, 0x47] 4 True]"
  by (simp_all add: wf_myrtille_send_screen_def processImage_def select_stream_def initial_quality_def
      sample_myrtille_fields sample_settings_def sample_env_fields sendImage_updatesPipe Let_def
      IMAGE_ENCODING_AUTO_def IMAGE_ENCODING_PNG_def IMAGE_ENCODING_JPEG_def INT_MAX_def wrap32_def)

theorem image_index_sequence_witness:
  "0 \<le> imageIdx (myrtille (wf_myrtille_send_screen sample_env sample_wfc False)) \<and>
   imageIdx (myrtille (wf_myrtille_send_screen sample_env sample_wfc False)) \<le> INT_MAX \<and>
   (\<exists>msg. updatesPipe (myrtille (wf_myrtille_send_screen sample_env sample_wfc False)) =
           updatesPipe (myrtille sample_wfc) @ [msg] \<and>
         int (message_field 2 msg) = 1 \<and>
         imageIdx (myrtille (wf_myrtille_send_screen sample_env sample_wfc False)) = 1)"
  using image_index_sequence [of sample_wfc sample_env
        "\<lparr>rect_left = 0, rect_top = 0, rect_right = 0, rect_bottom = 0\<rparr>"
        "wf_myrtille_send_screen sample_env sample_wfc False" False]
  by (simp add: sample_screen_pipe(2) sample_myrtille_fields next_imageIdx_def INT_MAX_def)

text \<open>
  Claim C5 as it was stated has the index wrap to 0. The image sent when the counter holds
  \<open>INT_MAX = 2147483647\<close> carries 1.
\<close>

theorem image_index_wrap_counterexample:
  "int (message_field 2 (last (updatesPipe (myrtille (wf_myrtille_send_screen sample_env
      (sample_wfc\<lparr>myrtille := (myrtille sample_wfc)\<lparr>imageIdx := 2147483647\<rparr>\<rparr>) False))))) = 1"
  by (simp add: sample_screen_pipe(1) INT_MAX_def wrap32_def sendImage_buffer_field)


section \<open>The choice of the codec in AUTO mode\<close>

lemma select_stream_auto:
  assumes "imageEncoding m = IMAGE_ENCODING_AUTO"
  shows "select_stream env m bmp quality =
           (if length (encodePNG env bmp) \<le> length (encodeJPEG env bmp quality)
            then (Some (encodePNG env bmp), IMAGE_FORMAT_PNG, IMAGE_QUALITY_HIGHEST,
                  length (encodePNG env bmp))
            else (Some (encodeJPEG env bmp quality), IMAGE_FORMAT_JPEG, quality,
                  length (encodeJPEG env bmp quality)))"
  using assms
  by (simp add: select_stream_def Let_def IMAGE_ENCODING_AUTO_def IMAGE_ENCODING_PNG_def
      IMAGE_ENCODING_JPEG_def)

lemma processImage_pipe_selected:
  assumes "select_stream env (myrtille wfc) bmp (initial_quality (myrtille wfc) fullscreen adaptive) =
             (Some s, format, quality, length s)"
    and "s \<noteq> []"
    and "0 \<le> imageIdx (myrtille wfc)" "imageIdx (myrtille wfc) \<le> INT_MAX"
    and "\<not> updatesPipeBroken (myrtille wfc)"
  shows "updatesPipe (myrtille (processImage env wfc bmp left top' right bottom fullscreen adaptive)) =
           updatesPipe (myrtille wfc) @
             [sendImage_buffer env (next_imageIdx (imageIdx (myrtille wfc))) left top'
                (right - left) (bottom - top') format quality s (int (length s)) fullscreen]"
  using assms by (simp add: processImage_selected sendImage_updatesPipe)

text \<open>
  Claim C3. In AUTO mode both encoders run, and the stream selected is the PNG one when it is
  no longer than the JPEG one (so also on a tie), the JPEG one otherwise. While the pipe takes
  the write and the selected stream is not empty, the message written carries that stream as
  its payload and names its format; for PNG the quality in the message is 100, whatever the
  client-set quality.
\<close>

theorem auto_selects_smaller:
  assumes "imageEncoding (myrtille wfc) = IMAGE_ENCODING_AUTO"
    and "\<not> updatesPipeBroken (myrtille wfc)"
    and "0 \<le> imageIdx (myrtille wfc)" and "imageIdx (myrtille wfc) \<le> INT_MAX"
    and "png = encodePNG env bmp"
    and "jpg = encodeJPEG env bmp (initial_quality (myrtille wfc) fullscreen adaptive)"
    and "wfc' = processImage env wfc bmp left top' right bottom fullscreen adaptive"
  shows "select_stream env (myrtille wfc) bmp (initial_quality (myrtille wfc) fullscreen adaptive) =
           (if length png \<le> length jpg
            then (Some png, IMAGE_FORMAT_PNG, IMAGE_QUALITY_HIGHEST, length png)
            else (Some jpg, IMAGE_FORMAT_JPEG, initial_quality (myrtille wfc) fullscreen adaptive,
                  length jpg)) \<and>
         (length png \<le> length jpg \<and> png \<noteq> [] \<longrightarrow>
            (\<exists>msg. updatesPipe (myrtille wfc') = updatesPipe (myrtille wfc) @ [msg] \<and>
                   int (message_field 7 msg) = IMAGE_FORMAT_PNG \<and>
                   int (message_field 8 msg) = IMAGE_QUALITY_HIGHEST \<and>
                   drop 40 msg = png)) \<and>
         (length jpg < length png \<and> jpg \<noteq> [] \<longrightarrow>
            (\<exists>msg. updatesPipe (myrtille wfc') = updatesPipe (myrtille wfc) @ [msg] \<and>
                   int (message_field 7 msg) = IMAGE_FORMAT_JPEG \<and>
                   drop 40 msg = jpg))"
proof (intro conjI impI)
  show "select_stream env (myrtille wfc) bmp (initial_quality (myrtille wfc) fullscreen adaptive) =
           (if length png \<le> length jpg
            then (Some png, IMAGE_FORMAT_PNG, IMAGE_QUALITY_HIGHEST, length png)
            else (Some jpg, IMAGE_FORMAT_JPEG, initial_quality (myrtille wfc) fullscreen adaptive,
                  length jpg))"
    using assms(1) unfolding assms(5,6) by (rule select_stream_auto)
next
  let ?q = "initial_quality (myrtille wfc) fullscreen adaptive"
  let ?i = "next_imageIdx (imageIdx (myrtille wfc))"
  assume a: "length png \<le> length jpg \<and> png \<noteq> []"
  let ?msg = "sendImage_buffer env ?i left top' (right - left) (bottom - top')
                IMAGE_FORMAT_PNG IMAGE_QUALITY_HIGHEST png (int (length png)) fullscreen"
  have sel: "select_stream env (myrtille wfc) bmp ?q =
               (Some png, IMAGE_FORMAT_PNG, IMAGE_QUALITY_HIGHEST, length png)"
    using a assms(1,5,6) by (simp add: select_stream_auto)
  have "updatesPipe (myrtille wfc') = updatesPipe (myrtille wfc) @ [?msg]"
    unfolding assms(7) using sel a assms(2-4) by (intro processImage_pipe_selected) simp_all
  moreover have "int (message_field 7 ?msg) = IMAGE_FORMAT_PNG"
    "int (message_field 8 ?msg) = IMAGE_QUALITY_HIGHEST"
    by (simp_all add: sendImage_buffer_field IMAGE_FORMAT_PNG_def IMAGE_QUALITY_HIGHEST_def)
  moreover have "drop 40 ?msg = png" by (simp add: sendImage_buffer_payload)
  ultimately show "\<exists>msg. updatesPipe (myrtille wfc') = updatesPipe (myrtille wfc) @ [msg] \<and>
                   int (message_field 7 msg) = IMAGE_FORMAT_PNG \<and>
                   int (message_field 8 msg) = IMAGE_QUALITY_HIGHEST \<and>
                   drop 40 msg = png"
    by blast
next
  let ?q = "initial_quality (myrtille wfc) fullscreen adaptive"
  let ?i = "next_imageIdx (imageIdx (myrtille wfc))"
  assume a: "length jpg < length png \<and> jpg \<noteq> []"
  let ?msg = "sendImage_buffer env ?i left top' (right - left) (bottom - top')
                IMAGE_FORMAT_JPEG ?q jpg (int (length jpg)) fullscreen"
  have sel: "select_stream env (myrtille wfc) bmp ?q = (Some jpg, IMAGE_FORMAT_JPEG, ?q, length jpg)"
    using a assms(1,5,6) by (simp add: select_stream_auto)
  have "updatesPipe (myrtille wfc') = updatesPipe (myrtille wfc) @ [?msg]"
    unfolding assms(7) using sel a assms(2-4) by (intro processImage_pipe_selected) simp_all
  moreover have "int (message_field 7 ?msg) = IMAGE_FORMAT_JPEG"
    by (simp add: sendImage_buffer_field IMAGE_FORMAT_JPEG_def)
  moreover have "drop 40 ?msg = jpg" by (simp add: sendImage_buffer_payload)
  ultimately show "\<exists>msg. updatesPipe (myrtille wfc') = updatesPipe (myrtille wfc) @ [msg] \<and>
                   int (message_field 7 msg) = IMAGE_FORMAT_JPEG \<and>
                   drop 40 msg = jpg"
    by blast
qed


theorem auto_selects_smaller_witness:
  "(\<exists>msg. updatesPipe (myrtille (processImage sample_env sample_wfc
              \<lparr>bmp_width = 20, bmp_height = 30, bmp_bits = []\<rparr> 10 20 30 50 False False)) =
            updatesPipe (myrtille sample_wfc) @ [msg] \<and>
          int (message_field 7 msg) = IMAGE_FORMAT_PNG \<and>
          int (message_field 8 msg) = IMAGE_QUALITY_HIGHEST \<and>
          drop 40 msg = [0x89, 0x50, 0x4E, 0x47]) \<and>
   (\<exists>msg. updatesPipe (myrtille (processImage
              (sample_env\<lparr>encodeJPEG := \<lambda>bmp quality. [0xFF, 0xD8]\<rparr>) sample_wfc
              \<lparr>bmp_width = 20, bmp_height = 30, bmp_bits = []\<rparr> 10 20 30 50 False False)) =
            updatesPipe (myrtille sample_wfc) @ [msg] \<and>
          int (message_field 7 msg) = IMAGE_FORMAT_JPEG \<and>
          drop 40 msg = [0xFF, 0xD8])"
proof -
  let ?bmp = "\<lparr>bmp_width = 20, bmp_height = 30, bmp_bits = []\<rparr>"
  let ?env2 = "sample_env\<lparr>encodeJPEG := \<lambda>bmp quality. [0xFF, 0xD8]\<rparr>"
  let ?q = "initial_quality (myrtille sample_wfc) False False"
  have auto: "imageEncoding (myrtille sample_wfc) = IMAGE_ENCODING_AUTO"
    by (simp add: sample_myrtille_fields IMAGE_ENCODING_AUTO_def)
  have pipe: "\<not> updatesPipeBroken (myrtille sample_wfc)"
    by (simp add: sample_myrtille_fields)
  have idx: "0 \<le> imageIdx (myrtille sample_wfc)" "imageIdx (myrtille sample_wfc) \<le> INT_MAX"
    by (simp_all add: sample_myrtille_fields INT_MAX_def)
  have png1: "[0x89, 0x50, 0x4E, 0x47] = encodePNG sample_env ?bmp"
    and jpg1: "[0xFF, 0xD8, 0xFF, 0xE0, 0x00] = encodeJPEG sample_env ?bmp ?q"
    by (simp_all add: sample_env_fields)
  have png2: "[0x89, 0x50, 0x4E, 0x47] = encodePNG ?env2 ?bmp"
    and jpg2: "[0xFF, 0xD8] = encodeJPEG ?env2 ?bmp ?q"
    by (simp_all add: sample_env_def)
  from auto_selects_smaller [OF auto pipe idx png1 jpg1 refl, of 10 20 30 50]
  have first: "\<exists>msg. updatesPipe (myrtille (processImage sample_env sample_wfc ?bmp 10 20 30 50 False False)) =
            updatesPipe (myrtille sample_wfc) @ [msg] \<and>
          int (message_field 7 msg) = IMAGE_FORMAT_PNG \<and>
          int (message_field 8 msg) = IMAGE_QUALITY_HIGHEST \<and>
          drop 40 msg = [0x89, 0x50, 0x4E, 0x47]"
    by simp
  from auto_selects_smaller [OF auto pipe idx png2 jpg2 refl, of 10 20 30 50]
  have second: "\<exists>msg. updatesPipe (myrtille (processImage ?env2 sample_wfc ?bmp 10 20 30 50 False False)) =
            updatesPipe (myrtille sample_wfc) @ [msg] \<and>
          int (message_field 7 msg) = IMAGE_FORMAT_JPEG \<and>
          drop 40 msg = [0xFF, 0xD8]"
    by simp
  from first second show ?thesis by (rule conjI)
qed

text \<open>
  Claim C4 does not hold of the code. In AUTO mode the sizes are compared as they are, so an
  empty PNG stream (a failed encoding) is never longer than the JPEG stream and is selected;
  the guard \<^verbatim>\<open>size > 0\<close> then drops the update although the JPEG encoding succeeded.
  The same happens to a good PNG stream when the JPEG stream is empty.
\<close>

theorem auto_empty_candidate_wins:
  "encodeJPEG (sample_env\<lparr>encodePNG := \<lambda>bmp. []\<rparr>) \<lparr>bmp_width = 20, bmp_height = 30, bmp_bits = []\<rparr>
     (imageQuality (myrtille sample_wfc)) = [0xFF, 0xD8, 0xFF, 0xE0, 0x00] \<and>
   imageEncoding (myrtille sample_wfc) = IMAGE_ENCODING_AUTO \<and>
   updatesPipe (myrtille (processImage (sample_env\<lparr>encodePNG := \<lambda>bmp. []\<rparr>) sample_wfc
       \<lparr>bmp_width = 20, bmp_height = 30, bmp_bits = []\<rparr> 10 20 30 50 False False)) =
     updatesPipe (myrtille sample_wfc) \<and>
   encodePNG (sample_env\<lparr>encodeJPEG := \<lambda>bmp quality. []\<rparr>)
     \<lparr>bmp_width = 20, bmp_height = 30, bmp_bits = []\<rparr> = [0x89, 0x50, 0x4E, 0x47] \<and>
   updatesPipe (myrtille (processImage (sample_env\<lparr>encodeJPEG := \<lambda>bmp quality. []\<rparr>) sample_wfc
       \<lparr>bmp_width = 20, bmp_height = 30, bmp_bits = []\<rparr> 10 20 30 50 False False)) =
     updatesPipe (myrtille sample_wfc)"
proof -
  let ?bmp = "\<lparr>bmp_width = 20, bmp_height = 30, bmp_bits = []\<rparr>"
  let ?envP = "sample_env\<lparr>encodePNG := \<lambda>bmp. []\<rparr>"
  let ?envJ = "sample_env\<lparr>encodeJPEG := \<lambda>bmp quality. []\<rparr>"
  let ?q = "initial_quality (myrtille sample_wfc) False False"
  have auto: "imageEncoding (myrtille sample_wfc) = IMAGE_ENCODING_AUTO"
    by (simp add: sample_myrtille_fields IMAGE_ENCODING_AUTO_def)
  have selP: "select_stream ?envP (myrtille sample_wfc) ?bmp ?q =
                (Some [], IMAGE_FORMAT_PNG, IMAGE_QUALITY_HIGHEST, 0)"
    by (simp add: select_stream_auto [OF auto] sample_env_fields)
  have selJ: "select_stream ?envJ (myrtille sample_wfc) ?bmp ?q = (Some [], IMAGE_FORMAT_JPEG, ?q, 0)"
    by (simp add: select_stream_auto [OF auto] sample_env_fields)
  have "updatesPipe (myrtille (processImage ?envP sample_wfc ?bmp 10 20 30 50 False False)) =
          updatesPipe (myrtille sample_wfc)"
    using selP by (rule processImage_not_selected) simp
  moreover have "updatesPipe (myrtille (processImage ?envJ sample_wfc ?bmp 10 20 30 50 False False)) =
          updatesPipe (myrtille sample_wfc)"
    using selJ by (rule processImage_not_selected) simp
  ultimately show ?thesis using auto by (simp add: sample_env_fields)
qed

section \<open>Quality of adaptive fullscreen updates\<close>

lemma select_stream_lossy:
  "imageEncoding m = IMAGE_ENCODING_JPEG \<Longrightarrow>
     select_stream env m bmp q = (Some (encodeJPEG env bmp q), IMAGE_FORMAT_JPEG, q, length (encodeJPEG env bmp q))"
  "imageEncoding m = IMAGE_ENCODING_WEBP \<Longrightarrow>
     select_stream env m bmp q = (Some (encodeWEBP env bmp q), IMAGE_FORMAT_WEBP, q, length (encodeWEBP env bmp q))"
  "imageEncoding m = IMAGE_ENCODING_PNG \<Longrightarrow>
     select_stream env m bmp q = (Some (encodePNG env bmp), IMAGE_FORMAT_PNG, IMAGE_QUALITY_HIGHEST, length (encodePNG env bmp))"
  by (simp_all add: select_stream_def Let_def IMAGE_ENCODING_AUTO_def IMAGE_ENCODING_PNG_def
      IMAGE_ENCODING_JPEG_def IMAGE_ENCODING_WEBP_def)

lemma initial_quality_eq:
  "imageEncoding m \<noteq> IMAGE_ENCODING_PNG \<Longrightarrow>
     initial_quality m fullscreen adaptive = (if fullscreen \<and> adaptive then 75 else imageQuality m)"
  "imageEncoding m = IMAGE_ENCODING_PNG \<Longrightarrow> initial_quality m fullscreen adaptive = 100"
  by (simp_all add: initial_quality_def IMAGE_QUALITY_HIGHER_def IMAGE_QUALITY_HIGHEST_def)

lemma send_screen_processImage:
  assumes "MyrtilleSessionId (settings wfc) \<noteq> None" and "primary_hdc wfc"
  shows "\<exists>bmp w h. \<forall>adaptive.
           wf_myrtille_send_screen env wfc adaptive = processImage env wfc bmp 0 0 w h True adaptive"
proof -
  let ?m = "myrtille wfc"
  let ?dw = "DesktopWidth (settings wfc)" and ?dh = "DesktopHeight (settings wfc)"
  let ?bmp = "if \<not> scaleDisplay ?m \<or> (clientWidth ?m = ?dw \<and> clientHeight ?m = ?dh)
              then StretchBlt env ?dw ?dh 0 0 ?dw ?dh
              else StretchBlt env (clientWidth ?m) (clientHeight ?m) 0 0 ?dw ?dh"
  have "\<forall>adaptive. wf_myrtille_send_screen env wfc adaptive =
          processImage env wfc ?bmp 0 0 (if scaleDisplay ?m then clientWidth ?m else ?dw)
            (if scaleDisplay ?m then clientHeight ?m else ?dh) True adaptive"
    using assms by (auto simp: wf_myrtille_send_screen_def Let_def)
  then show ?thesis by blast
qed

text \<open>
  Claim C6, as amended. \<^verbatim>\<open>processImage\<close> starts from the quality \<open>q\<close>: the fixed 75
  (\<open>IMAGE_QUALITY_HIGHER\<close>) for a fullscreen update asked for with the adaptive flag, the
  client-set quality for every other update. With JPEG and with WebP, and in AUTO mode where
  the JPEG stream is the shorter one, the message written (while the pipe takes the write and
  the stream is not empty) names \<open>q\<close> as its quality and carries the stream the encoder gave
  at \<open>q\<close>. So the adaptive update has the strictly higher quality exactly when the
  client-set quality is below 75. With PNG the message names 100, and \<^verbatim>\<open>processImage\<close>
  does the same with the flag as without it. \<^verbatim>\<open>wf_myrtille_send_screen\<close> hands its flag
  on to \<^verbatim>\<open>processImage\<close>, with \<open>fullscreen\<close> true and a bitmap that does not depend on
  the flag.
\<close>

theorem adaptive_quality_tier:
  assumes "\<not> updatesPipeBroken (myrtille wfc)"
    and "0 \<le> imageIdx (myrtille wfc)" and "imageIdx (myrtille wfc) \<le> INT_MAX"
    and "q = (if fullscreen \<and> adaptive then 75 else imageQuality (myrtille wfc))"
    and "png = encodePNG env bmp" and "jpg = encodeJPEG env bmp q" and "webp = encodeWEBP env bmp q"
    and "idx = next_imageIdx (imageIdx (myrtille wfc))"
    and "wfc' = processImage env wfc bmp left top' right bottom fullscreen adaptive"
  shows "(imageEncoding (myrtille wfc) = IMAGE_ENCODING_JPEG \<and> jpg \<noteq> [] \<longrightarrow>
            updatesPipe (myrtille wfc') = updatesPipe (myrtille wfc) @
              [sendImage_buffer env idx left top' (right - left) (bottom - top')
                 IMAGE_FORMAT_JPEG q jpg (int (length jpg)) fullscreen]) \<and>
         (imageEncoding (myrtille wfc) = IMAGE_ENCODING_WEBP \<and> webp \<noteq> [] \<longrightarrow>
            updatesPipe (myrtille wfc') = updatesPipe (myrtille wfc) @
              [sendImage_buffer env idx left top' (right - left) (bottom - top')
                 IMAGE_FORMAT_WEBP q webp (int (length webp)) fullscreen]) \<and>
         (imageEncoding (myrtille wfc) = IMAGE_ENCODING_AUTO \<and> length jpg < length png \<and> jpg \<noteq> [] \<longrightarrow>
            updatesPipe (myrtille wfc') = updatesPipe (myrtille wfc) @
              [sendImage_buffer env idx left top' (right - left) (bottom - top')
                 IMAGE_FORMAT_JPEG q jpg (int (length jpg)) fullscreen]) \<and>
         (imageEncoding (myrtille wfc) = IMAGE_ENCODING_PNG \<and> png \<noteq> [] \<longrightarrow>
            updatesPipe (myrtille wfc') = updatesPipe (myrtille wfc) @
              [sendImage_buffer env idx left top' (right - left) (bottom - top')
                 IMAGE_FORMAT_PNG 100 png (int (length png)) fullscreen]) \<and>
         (imageEncoding (myrtille wfc) = IMAGE_ENCODING_PNG \<longrightarrow>
            processImage env wfc bmp left top' right bottom fullscreen True =
            processImage env wfc bmp left top' right bottom fullscreen False) \<and>
         message_field 8 (sendImage_buffer env idx left top' (right - left) (bottom - top')
                            IMAGE_FORMAT_JPEG q jpg (int (length jpg)) fullscreen) =
           nat (q mod 4294967296) \<and>
         (MyrtilleSessionId (settings wfc) \<noteq> None \<and> primary_hdc wfc \<longrightarrow>
            (\<exists>bmp' w h. \<forall>a. wf_myrtille_send_screen env wfc a =
                               processImage env wfc bmp' 0 0 w h True a))"
proof (intro conjI impI)
  let ?q0 = "initial_quality (myrtille wfc) fullscreen adaptive"
  {
    assume a: "imageEncoding (myrtille wfc) = IMAGE_ENCODING_JPEG \<and> jpg \<noteq> []"
    then have q0: "?q0 = q"
      using assms(4) by (simp add: initial_quality_eq IMAGE_ENCODING_JPEG_def IMAGE_ENCODING_PNG_def)
    have sel: "select_stream env (myrtille wfc) bmp ?q0 = (Some jpg, IMAGE_FORMAT_JPEG, q, length jpg)"
      using a unfolding q0 assms(6) by (simp add: select_stream_lossy)
    show "updatesPipe (myrtille wfc') = updatesPipe (myrtille wfc) @
              [sendImage_buffer env idx left top' (right - left) (bottom - top')
                 IMAGE_FORMAT_JPEG q jpg (int (length jpg)) fullscreen]"
      unfolding assms(8,9) using sel a assms(1-3) by (intro processImage_pipe_selected) simp_all
  }
  {
    assume a: "imageEncoding (myrtille wfc) = IMAGE_ENCODING_WEBP \<and> webp \<noteq> []"
    then have q0: "?q0 = q"
      using assms(4) by (simp add: initial_quality_eq IMAGE_ENCODING_WEBP_def IMAGE_ENCODING_PNG_def)
    have sel: "select_stream env (myrtille wfc) bmp ?q0 = (Some webp, IMAGE_FORMAT_WEBP, q, length webp)"
      using a unfolding q0 assms(7) by (simp add: select_stream_lossy)
    show "updatesPipe (myrtille wfc') = updatesPipe (myrtille wfc) @
              [sendImage_buffer env idx left top' (right - left) (bottom - top')
                 IMAGE_FORMAT_WEBP q webp (int (length webp)) fullscreen]"
      unfolding assms(8,9) using sel a assms(1-3) by (intro processImage_pipe_selected) simp_all
  }
  {
    assume a: "imageEncoding (myrtille wfc) = IMAGE_ENCODING_AUTO \<and> length jpg < length png \<and> jpg \<noteq> []"
    then have q0: "?q0 = q"
      using assms(4) by (simp add: initial_quality_eq IMAGE_ENCODING_AUTO_def IMAGE_ENCODING_PNG_def)
    have sel: "select_stream env (myrtille wfc) bmp ?q0 = (Some jpg, IMAGE_FORMAT_JPEG, q, length jpg)"
      using a unfolding q0 assms(5,6) by (simp add: select_stream_auto)
    show "updatesPipe (myrtille wfc') = updatesPipe (myrtille wfc) @
              [sendImage_buffer env idx left top' (right - left) (bottom - top')
                 IMAGE_FORMAT_JPEG q jpg (int (length jpg)) fullscreen]"
      unfolding assms(8,9) using sel a assms(1-3) by (intro processImage_pipe_selected) simp_all
  }
  {
    assume a: "imageEncoding (myrtille wfc) = IMAGE_ENCODING_PNG \<and> png \<noteq> []"
    have sel: "select_stream env (myrtille wfc) bmp ?q0 = (Some png, IMAGE_FORMAT_PNG, 100, length png)"
      using a unfolding assms(5) by (simp add: select_stream_lossy IMAGE_QUALITY_HIGHEST_def)
    show "updatesPipe (myrtille wfc') = updatesPipe (myrtille wfc) @
              [sendImage_buffer env idx left top' (right - left) (bottom - top')
                 IMAGE_FORMAT_PNG 100 png (int (length png)) fullscreen]"
      unfolding assms(8,9) using sel a assms(1-3) by (intro processImage_pipe_selected) simp_all
  }
  {
    assume p: "imageEncoding (myrtille wfc) = IMAGE_ENCODING_PNG"
    then have "initial_quality (myrtille wfc) fullscreen True = initial_quality (myrtille wfc) fullscreen False"
      by (simp add: initial_quality_eq)
    then show "processImage env wfc bmp left top' right bottom fullscreen True =
        processImage env wfc bmp left top' right bottom fullscreen False"
      by (simp add: processImage_def)
  }
  show "message_field 8 (sendImage_buffer env idx left top' (right - left) (bottom - top')
                            IMAGE_FORMAT_JPEG q jpg (int (length jpg)) fullscreen) =
           nat (q mod 4294967296)"
    by (rule sendImage_buffer_field)
  {
    assume "MyrtilleSessionId (settings wfc) \<noteq> None \<and> primary_hdc wfc"
    then show "\<exists>bmp' w h. \<forall>a. wf_myrtille_send_screen env wfc a =
                               processImage env wfc bmp' 0 0 w h True a"
      by (intro send_screen_processImage) simp_all
  }
qed

lemma sample_send_screen:
  "wf_myrtille_send_screen sample_env (sample_wfc\<lparr>myrtille := (myrtille sample_wfc)\<lparr>imageEncoding := e, imageQuality := c\<rparr>\<rparr>) adaptive =
     processImage sample_env (sample_wfc\<lparr>myrtille := (myrtille sample_wfc)\<lparr>imageEncoding := e, imageQuality := c\<rparr>\<rparr>)
       \<lparr>bmp_width = 1024, bmp_height = 768, bmp_bits = []\<rparr> 0 0 1024 768 True adaptive"
  by (simp add: wf_myrtille_send_screen_def sample_myrtille_fields sample_settings_def sample_env_def Let_def)

theorem adaptive_quality_tier_witness:
  "updatesPipe (myrtille (wf_myrtille_send_screen sample_env
       (sample_wfc\<lparr>myrtille := (myrtille sample_wfc)\<lparr>imageEncoding := 2, imageQuality := 50\<rparr>\<rparr>) True)) =
     [sendImage_buffer sample_env 1 0 0 1024 768 2 75 [0xFF, 0xD8, 0xFF, 0xE0, 0x00] 5 True] \<and>
   updatesPipe (myrtille (wf_myrtille_send_screen sample_env
       (sample_wfc\<lparr>myrtille := (myrtille sample_wfc)\<lparr>imageEncoding := 2, imageQuality := 50\<rparr>\<rparr>) False)) =
     [sendImage_buffer sample_env 1 0 0 1024 768 2 50 [0xFF, 0xD8, 0xFF, 0xE0, 0x00] 5 True] \<and>
   message_field 8 (sendImage_buffer sample_env 1 0 0 1024 768 2 75 [0xFF, 0xD8, 0xFF, 0xE0, 0x00] 5 True) = 75 \<and>
   message_field 8 (sendImage_buffer sample_env 1 0 0 1024 768 2 50 [0xFF, 0xD8, 0xFF, 0xE0, 0x00] 5 True) = 50 \<and>
   wf_myrtille_send_screen sample_env
       (sample_wfc\<lparr>myrtille := (myrtille sample_wfc)\<lparr>imageEncoding := 1, imageQuality := 50\<rparr>\<rparr>) True =
   wf_myrtille_send_screen sample_env
       (sample_wfc\<lparr>myrtille := (myrtille sample_wfc)\<lparr>imageEncoding := 1, imageQuality := 50\<rparr>\<rparr>) False"
proof -
  let ?jpeg = "sample_wfc\<lparr>myrtille := (myrtille sample_wfc)\<lparr>imageEncoding := 2, imageQuality := 50\<rparr>\<rparr>"
  let ?png = "sample_wfc\<lparr>myrtille := (myrtille sample_wfc)\<lparr>imageEncoding := 1, imageQuality := 50\<rparr>\<rparr>"
  let ?bmp = "\<lparr>bmp_width = 1024, bmp_height = 768, bmp_bits = []\<rparr>"
  let ?jpg = "[0xFF, 0xD8, 0xFF, 0xE0, 0x00] :: byte list"
  have pipe: "\<not> updatesPipeBroken (myrtille ?jpeg)" "\<not> updatesPipeBroken (myrtille ?png)"
    and idx: "0 \<le> imageIdx (myrtille ?jpeg)" "imageIdx (myrtille ?jpeg) \<le> INT_MAX"
      "0 \<le> imageIdx (myrtille ?png)" "imageIdx (myrtille ?png) \<le> INT_MAX"
    and old: "updatesPipe (myrtille ?jpeg) = []"
    and nxt: "1 = next_imageIdx (imageIdx (myrtille ?jpeg))" "1 = next_imageIdx (imageIdx (myrtille ?png))"
    by (simp_all add: sample_myrtille_fields INT_MAX_def next_imageIdx_def)
  have qa: "75 = (if True \<and> True then 75 else imageQuality (myrtille ?jpeg))"
    and qn: "50 = (if True \<and> False then 75 else imageQuality (myrtille ?jpeg))"
    and qp: "75 = (if True \<and> True then 75 else imageQuality (myrtille ?png))"
    by simp_all
  have enc: "?jpg = encodeJPEG sample_env ?bmp q" "[0x89, 0x50, 0x4E, 0x47] = encodePNG sample_env ?bmp"
    "[0x52, 0x49, 0x46] = encodeWEBP sample_env ?bmp q" for q
    by (simp_all add: sample_env_fields)
  have mode: "imageEncoding (myrtille ?jpeg) = IMAGE_ENCODING_JPEG \<and> ?jpg \<noteq> []"
    "imageEncoding (myrtille ?png) = IMAGE_ENCODING_PNG"
    by (simp_all add: IMAGE_ENCODING_JPEG_def IMAGE_ENCODING_PNG_def)
  note a = adaptive_quality_tier [OF pipe(1) idx(1,2) qa enc(2,1,3) nxt(1) refl, of 0 0 1024 768]
  note n = adaptive_quality_tier [OF pipe(1) idx(1,2) qn enc(2,1,3) nxt(1) refl, of 0 0 1024 768]
  note p = adaptive_quality_tier [OF pipe(2) idx(3,4) qp enc(2,1,3) nxt(2) refl, of 0 0 1024 768]
  from a mode(1) have "updatesPipe (myrtille (processImage sample_env ?jpeg ?bmp 0 0 1024 768 True True)) =
      updatesPipe (myrtille ?jpeg) @
        [sendImage_buffer sample_env 1 0 0 (1024 - 0) (768 - 0) IMAGE_FORMAT_JPEG 75 ?jpg (int (length ?jpg)) True]"
    by blast
  then have first: "updatesPipe (myrtille (wf_myrtille_send_screen sample_env ?jpeg True)) =
      [sendImage_buffer sample_env 1 0 0 1024 768 2 75 ?jpg 5 True]"
    by (simp add: sample_send_screen sample_myrtille_fields IMAGE_FORMAT_JPEG_def)
  from n mode(1) have "updatesPipe (myrtille (processImage sample_env ?jpeg ?bmp 0 0 1024 768 True False)) =
      updatesPipe (myrtille ?jpeg) @
        [sendImage_buffer sample_env 1 0 0 (1024 - 0) (768 - 0) IMAGE_FORMAT_JPEG 50 ?jpg (int (length ?jpg)) True]"
    by blast
  then have second: "updatesPipe (myrtille (wf_myrtille_send_screen sample_env ?jpeg False)) =
      [sendImage_buffer sample_env 1 0 0 1024 768 2 50 ?jpg 5 True]"
    by (simp add: sample_send_screen sample_myrtille_fields IMAGE_FORMAT_JPEG_def)
  from a have "message_field 8 (sendImage_buffer sample_env 1 0 0 (1024 - 0) (768 - 0)
                  IMAGE_FORMAT_JPEG 75 ?jpg (int (length ?jpg)) True) = nat (75 mod 4294967296)"
    by blast
  then have third: "message_field 8 (sendImage_buffer sample_env 1 0 0 1024 768 2 75 ?jpg 5 True) = 75"
    by (simp add: IMAGE_FORMAT_JPEG_def)
  from n have "message_field 8 (sendImage_buffer sample_env 1 0 0 (1024 - 0) (768 - 0)
                  IMAGE_FORMAT_JPEG 50 ?jpg (int (length ?jpg)) True) = nat (50 mod 4294967296)"
    by blast
  then have fourth: "message_field 8 (sendImage_buffer sample_env 1 0 0 1024 768 2 50 ?jpg 5 True) = 50"
    by (simp add: IMAGE_FORMAT_JPEG_def)
  from p mode(2) have "processImage sample_env ?png ?bmp 0 0 1024 768 True True =
      processImage sample_env ?png ?bmp 0 0 1024 768 True False"
    by blast
  then have fifth: "wf_myrtille_send_screen sample_env ?png True = wf_myrtille_send_screen sample_env ?png False"
    by (simp only: sample_send_screen)
  from first second third fourth fifth show ?thesis by (intro conjI)
qed

text \<open>
  Claim C6 as it was stated asks for a strictly higher quality at every client-set quality.
  With JPEG and the client-set quality 100 (\<open>IMAGE_QUALITY_HIGHEST\<close>), the message of the
  adaptive fullscreen update names the quality 75 and that of the plain one 100.
\<close>

theorem adaptive_quality_counterexample:
  "updatesPipe (myrtille (wf_myrtille_send_screen sample_env
       (sample_wfc\<lparr>myrtille := (myrtille sample_wfc)\<lparr>imageEncoding := 2, imageQuality := 100\<rparr>\<rparr>) True)) =
     [sendImage_buffer sample_env 1 0 0 1024 768 2 75 [0xFF, 0xD8, 0xFF, 0xE0, 0x00] 5 True] \<and>
   updatesPipe (myrtille (wf_myrtille_send_screen sample_env
       (sample_wfc\<lparr>myrtille := (myrtille sample_wfc)\<lparr>imageEncoding := 2, imageQuality := 100\<rparr>\<rparr>) False)) =
     [sendImage_buffer sample_env 1 0 0 1024 768 2 100 [0xFF, 0xD8, 0xFF, 0xE0, 0x00] 5 True] \<and>
   message_field 8 (sendImage_buffer sample_env 1 0 0 1024 768 2 75 [0xFF, 0xD8, 0xFF, 0xE0, 0x00] 5 True) = 75 \<and>
   message_field 8 (sendImage_buffer sample_env 1 0 0 1024 768 2 100 [0xFF, 0xD8, 0xFF, 0xE0, 0x00] 5 True) = 100"
proof -
  let ?jpeg = "sample_wfc\<lparr>myrtille := (myrtille sample_wfc)\<lparr>imageEncoding := 2, imageQuality := 100\<rparr>\<rparr>"
  let ?bmp = "\<lparr>bmp_width = 1024, bmp_height = 768, bmp_bits = []\<rparr>"
  let ?jpg = "[0xFF, 0xD8, 0xFF, 0xE0, 0x00] :: byte list"
  have sel: "select_stream sample_env (myrtille ?jpeg) ?bmp q = (Some ?jpg, 2, q, length ?jpg)" for q
    by (simp add: select_stream_lossy(1) IMAGE_ENCODING_JPEG_def IMAGE_FORMAT_JPEG_def sample_env_fields)
  have q: "initial_quality (myrtille ?jpeg) True True = 75" "initial_quality (myrtille ?jpeg) True False = 100"
    by (simp_all add: initial_quality_eq IMAGE_ENCODING_PNG_def)
  have selA: "select_stream sample_env (myrtille ?jpeg) ?bmp (initial_quality (myrtille ?jpeg) True True) =
      (Some ?jpg, 2, 75, length ?jpg)"
    and selN: "select_stream sample_env (myrtille ?jpeg) ?bmp (initial_quality (myrtille ?jpeg) True False) =
      (Some ?jpg, 2, 100, length ?jpg)"
    unfolding q by (rule sel)+
  have "updatesPipe (myrtille (processImage sample_env ?jpeg ?bmp 0 0 1024 768 True True)) =
      updatesPipe (myrtille ?jpeg) @
        [sendImage_buffer sample_env (next_imageIdx (imageIdx (myrtille ?jpeg))) 0 0 (1024 - 0) (768 - 0)
           2 75 ?jpg (int (length ?jpg)) True]"
    by (rule processImage_pipe_selected [OF selA]) (simp_all add: sample_myrtille_fields INT_MAX_def)
  moreover have "updatesPipe (myrtille (processImage sample_env ?jpeg ?bmp 0 0 1024 768 True False)) =
      updatesPipe (myrtille ?jpeg) @
        [sendImage_buffer sample_env (next_imageIdx (imageIdx (myrtille ?jpeg))) 0 0 (1024 - 0) (768 - 0)
           2 100 ?jpg (int (length ?jpg)) True]"
    by (rule processImage_pipe_selected [OF selN]) (simp_all add: sample_myrtille_fields INT_MAX_def)
  ultimately show ?thesis
    by (simp add: sample_send_screen sample_myrtille_fields next_imageIdx_def INT_MAX_def
        sendImage_buffer_field)
qed

section \<open>The region throttle\<close>

subsection \<open>The regulator on one event\<close>




subsection \<open>The accumulator is the bounding union\<close>











subsection \<open>What the encoding leaves alone\<close>



subsection \<open>One call of \<^verbatim>\<open>wf_myrtille_send_region\<close>\<close>







subsection \<open>Runs\<close>





subsection \<open>Instances\<close>









section \<open>Commands of the inputs pipe\<close>

subsection \<open>Encoding controls\<close>

lemma commandMap_index_known:
  "cm key = Some command \<Longrightarrow> commandMap_index cm key = (command, cm)"
  by (simp add: commandMap_index_def)

lemma processMessage_known:
  assumes "commandMap (myrtille wfc) tag = Some command" and "length tag = 3"
  shows "processMessage env wfc (tag @ commandArgs) = dispatch env wfc command commandArgs"
  using assms by (simp add: processMessage_def commandMap_index_known)

text \<open>
  Claim C7, as amended. With the tags \<open>ECD\<close>, \<open>QLT\<close> and \<open>QNT\<close> in the command table as
  \<^verbatim>\<open>wf_myrtille_start\<close> puts them, an argument that \<^verbatim>\<open>std::stoi\<close> parses to \<open>v\<close>
  makes SET\_IMAGE\_ENCODING store \<open>v\<close> as the encoding and set the quality to 50
  (\<open>IMAGE_QUALITY_HIGH\<close>) whatever it was, and makes SET\_IMAGE\_QUALITY and
  SET\_IMAGE\_QUANTITY store \<open>v\<close>. An argument that \<^verbatim>\<open>std::stoi\<close> refuses makes each of
  the three throw before any field is written.
\<close>

theorem encoding_controls:
  assumes "commandMap (myrtille wfc) ''ECD'' = Some SET_IMAGE_ENCODING"
    and "commandMap (myrtille wfc) ''QLT'' = Some SET_IMAGE_QUALITY"
    and "commandMap (myrtille wfc) ''QNT'' = Some SET_IMAGE_QUANTITY"
  shows "processMessage env wfc (''ECD'' @ commandArgs) =
           (case stoi commandArgs of
              Inl e \<Rightarrow> Inl e
            | Inr v \<Rightarrow> Inr (wfc\<lparr>myrtille := (myrtille wfc)\<lparr>imageEncoding := v, imageQuality := 50\<rparr>\<rparr>)) \<and>
         processMessage env wfc (''QLT'' @ commandArgs) =
           (case stoi commandArgs of
              Inl e \<Rightarrow> Inl e
            | Inr v \<Rightarrow> Inr (wfc\<lparr>myrtille := (myrtille wfc)\<lparr>imageQuality := v\<rparr>\<rparr>)) \<and>
         processMessage env wfc (''QNT'' @ commandArgs) =
           (case stoi commandArgs of
              Inl e \<Rightarrow> Inl e
            | Inr v \<Rightarrow> Inr (wfc\<lparr>myrtille := (myrtille wfc)\<lparr>imageQuantity := v\<rparr>\<rparr>)) \<and>
         IMAGE_QUALITY_HIGH = 50"
proof (intro conjI)
  have l: "length ''ECD'' = 3" "length ''QLT'' = 3" "length ''QNT'' = 3" by simp_all
  show "processMessage env wfc (''ECD'' @ commandArgs) =
           (case stoi commandArgs of
              Inl e \<Rightarrow> Inl e
            | Inr v \<Rightarrow> Inr (wfc\<lparr>myrtille := (myrtille wfc)\<lparr>imageEncoding := v, imageQuality := 50\<rparr>\<rparr>))"
    unfolding processMessage_known [OF assms(1) l(1)]
    by (simp add: IMAGE_QUALITY_HIGH_def split: sum.splits)
  show "processMessage env wfc (''QLT'' @ commandArgs) =
           (case stoi commandArgs of
              Inl e \<Rightarrow> Inl e
            | Inr v \<Rightarrow> Inr (wfc\<lparr>myrtille := (myrtille wfc)\<lparr>imageQuality := v\<rparr>\<rparr>))"
    unfolding processMessage_known [OF assms(2) l(2)] by (simp add: set_int_field_def)
  show "processMessage env wfc (''QNT'' @ commandArgs) =
           (case stoi commandArgs of
              Inl e \<Rightarrow> Inl e
            | Inr v \<Rightarrow> Inr (wfc\<lparr>myrtille := (myrtille wfc)\<lparr>imageQuantity := v\<rparr>\<rparr>))"
    unfolding processMessage_known [OF assms(3) l(3)] by (simp add: set_int_field_def)
  show "IMAGE_QUALITY_HIGH = 50" by (simp add: IMAGE_QUALITY_HIGH_def)
qed

lemma sample_commandMap:
  "commandMap (myrtille sample_wfc) ''ECD'' = Some SET_IMAGE_ENCODING"
  "commandMap (myrtille sample_wfc) ''QLT'' = Some SET_IMAGE_QUALITY"
  "commandMap (myrtille sample_wfc) ''QNT'' = Some SET_IMAGE_QUANTITY"
  "commandMap (myrtille sample_wfc) ''XYZ'' = None"
  by (simp_all add: sample_wfc_def wf_myrtille_start_def sample_settings_def calloc_wf_myrtille_def)

lemma stoi_samples:
  "stoi ''2'' = Inr 2" "stoi ''25'' = Inr 25" "stoi ''abc'' = Inl invalid_argument"
  "stoi [] = Inl invalid_argument"
  by (simp_all add: stoi_def strtol_parse_def c_str_def isspace_def isdigit_def digits_value_def
      INT_MIN_def INT_MAX_def)

theorem encoding_controls_witness:
  "processMessage sample_env (sample_wfc\<lparr>myrtille := (myrtille sample_wfc)\<lparr>imageQuality := 10\<rparr>\<rparr>) ''ECD2'' =
     Inr (sample_wfc\<lparr>myrtille := (myrtille sample_wfc)\<lparr>imageEncoding := 2, imageQuality := 50\<rparr>\<rparr>) \<and>
   processMessage sample_env sample_wfc ''QLT25'' =
     Inr (sample_wfc\<lparr>myrtille := (myrtille sample_wfc)\<lparr>imageQuality := 25\<rparr>\<rparr>) \<and>
   processMessage sample_env sample_wfc ''QNT25'' =
     Inr (sample_wfc\<lparr>myrtille := (myrtille sample_wfc)\<lparr>imageQuantity := 25\<rparr>\<rparr>)"
  using encoding_controls [of "sample_wfc\<lparr>myrtille := (myrtille sample_wfc)\<lparr>imageQuality := 10\<rparr>\<rparr>"
      sample_env "''2''"]
    encoding_controls [of sample_wfc sample_env "''25''"]
  by (simp add: sample_commandMap stoi_samples)

text \<open>
  Claim C7 as it was stated speaks of any argument. With the quality at 10, the payloads
  \<open>ECDabc\<close> and \<open>ECD\<close> end in \<^verbatim>\<open>std::invalid_argument\<close>: \<^verbatim>\<open>stoi\<close> is called before the
  quality is assigned, and no state with quality 50 is reached.
\<close>

theorem encoding_unparsable_counterexample:
  "imageQuality (myrtille (sample_wfc\<lparr>myrtille := (myrtille sample_wfc)\<lparr>imageQuality := 10\<rparr>\<rparr>)) = 10 \<and>
   processMessage sample_env (sample_wfc\<lparr>myrtille := (myrtille sample_wfc)\<lparr>imageQuality := 10\<rparr>\<rparr>)
     ''ECDabc'' = Inl invalid_argument \<and>
   processMessage sample_env (sample_wfc\<lparr>myrtille := (myrtille sample_wfc)\<lparr>imageQuality := 10\<rparr>\<rparr>)
     ''ECD'' = Inl invalid_argument"
  using processMessage_known [of "sample_wfc\<lparr>myrtille := (myrtille sample_wfc)\<lparr>imageQuality := 10\<rparr>\<rparr>"
      "''ECD''" SET_IMAGE_ENCODING sample_env "''abc''"]
    processMessage_known [of "sample_wfc\<lparr>myrtille := (myrtille sample_wfc)\<lparr>imageQuality := 10\<rparr>\<rparr>"
      "''ECD''" SET_IMAGE_ENCODING sample_env "[]"]
  by (simp add: sample_commandMap stoi_samples)


subsection \<open>A tag that is not in the command table\<close>

lemma processMessage_unknown:
  assumes "commandMap (myrtille wfc) (take 3 message) = None" and "3 \<le> length message"
  shows "processMessage env wfc message =
           Inr (wfc\<lparr>myrtille := (myrtille wfc)\<lparr>commandMap :=
                        (commandMap (myrtille wfc))(take 3 message \<mapsto> SEND_SERVER_ADDRESS)\<rparr>,
                    settings := set_server_address (settings wfc) (drop 3 message)\<rparr>)"
  using assms by (simp add: processMessage_def commandMap_index_def COMMAND_zero_def)

lemma sample_server_address:
  "ServerHostname (set_server_address sample_settings ''host:1234'') = Some ''host''"
  "ServerPort (set_server_address sample_settings ''host:1234'') = 1234"
  by (simp_all add: set_server_address_def c_str_def find_char_def atoi_def strtol_parse_def
      isspace_def isdigit_def digits_value_def INT_MIN_def INT_MAX_def Let_def)

lemma bytes_to_string_to_bytes: "bytes_to_string (string_to_bytes s) = s"
proof -
  have "char_of (unat (of_char c :: byte)) = c" for c :: char
  proof -
    have "(of_char c :: byte) = word_of_nat (of_char c)"
      by (simp add: of_nat_of_char)
    then have "unat (of_char c :: byte) = of_char c mod 2 ^ LENGTH(8)"
      by (simp only: unat_of_nat)
    then show ?thesis by simp
  qed
  then show ?thesis
    by (simp add: bytes_to_string_def string_to_bytes_def comp_def map_idI)
qed

text \<open>
  Claim C1 does not hold of the code. The command is looked up with \<^verbatim>\<open>commandMap[...]\<close>,
  which for a tag that is not in the table inserts it with the value-initialised command,
  \<open>SEND_SERVER_ADDRESS\<close>; the switch then runs that handler on the rest of the payload. In
  the sample session the payload \<open>XYZhost:1234\<close>, read by the loop after its length header,
  replaces the server's host name and port and leaves \<open>XYZ\<close> in the table.
\<close>

theorem unknown_tag_runs_server_address:
  "commandMap (myrtille sample_wfc) ''XYZ'' = None \<and>
   ServerHostname (settings sample_wfc) = Some ''desk.example.org'' \<and>
   ServerPort (settings sample_wfc) = 3389 \<and>
   map_sum id (\<lambda>wfc'. (ServerHostname (settings wfc'), ServerPort (settings wfc'),
                        commandMap (myrtille wfc') ''XYZ''))
     (processMessage sample_env sample_wfc ''XYZhost:1234'') =
     Inr (Some ''host'', 1234, Some SEND_SERVER_ADDRESS) \<and>
   map_sum id (\<lambda>state. (ServerHostname (settings (fst state)), ServerPort (settings (fst state)),
                        processInputs (myrtille (fst state))))
     (processInputsPipe sample_env sample_wfc
        [ReadFile_read [12, 0, 0, 0], ReadFile_read (string_to_bytes ''XYZhost:1234'')]) =
     Inr (Some ''host'', 1234, True)"
proof -
  have u: "commandMap (myrtille sample_wfc) (take 3 ''XYZhost:1234'') = None"
    by (simp add: sample_commandMap)
  note m = processMessage_unknown [OF u, of sample_env, simplified]
  have before: "ServerHostname (settings sample_wfc) = Some ''desk.example.org''"
    "ServerPort (settings sample_wfc) = 3389" "processInputs (myrtille sample_wfc)"
    "ServerHostname sample_settings = Some ''desk.example.org''" "ServerPort sample_settings = 3389"
    by (simp_all add: sample_wfc_def wf_myrtille_start_def sample_settings_def)
  have header: "nat (bytesToInt32 [12, 0, 0, 0] mod 4294967296) = 12"
    by (simp add: bytesToInt32_def wrap32_def)
  have len: "length (string_to_bytes ''XYZhost:1234'') = 12"
    "string_to_bytes ''XYZhost:1234'' \<noteq> []"
    by (simp_all add: string_to_bytes_def)
  have loop: "processInputsPipe sample_env sample_wfc
        [ReadFile_read [12, 0, 0, 0], ReadFile_read (string_to_bytes ''XYZhost:1234'')] =
      map_sum id (\<lambda>w. (w, True, 12)) (processMessage sample_env sample_wfc ''XYZhost:1234'')"
    by (simp add: processInputsPipe_def processInputsPipe_turn_def before header len
        bytes_to_string_to_bytes m Let_def)
  show ?thesis
    unfolding loop
    by (simp add: m before sample_commandMap sample_server_address sample_myrtille_fields)
qed

section \<open>Resizing with the aspect ratio locked\<close>

text \<open>
  Claim C9, as amended. \<^verbatim>\<open>processResizeDisplay\<close> with the ratio locked, on a resolution
  \<open>w\<close>x\<open>h\<close> whose two numbers \<^verbatim>\<open>std::stoi\<close> parses, changes the client's width and
  height and nothing else. Where the quotient of \<open>w\<close> and \<open>h\<close>, taken in floating point,
  equals the session's ratio \<open>a\<close>, both are adopted. Where \<open>a\<close> is less than the quotient,
  the height is kept and the width is \<open>h * a\<close> converted to \<^verbatim>\<open>int\<close>; otherwise the
  width is kept and the height is \<open>w / a\<close> converted to \<^verbatim>\<open>int\<close>. The floating point
  operations are those of the environment, whatever they are.
\<close>

theorem aspect_locked_resize:
  assumes "find_char resolution CHR ''x'' = Some k"
    and "stoi (take k resolution) = Inr w"
    and "stoi (drop (k + 1) resolution) = Inr h"
    and "a = aspectRatio (myrtille wfc)"
    and "ratio = float_div env (float_of_int env w) (float_of_int env h)"
  shows "\<exists>cw ch.
           processResizeDisplay env wfc True resolution =
             Inr (wfc\<lparr>myrtille := (myrtille wfc)\<lparr>clientWidth := cw, clientHeight := ch\<rparr>\<rparr>) \<and>
           (float_eq env a ratio \<longrightarrow> cw = w \<and> ch = h) \<and>
           (\<not> float_eq env a ratio \<and> float_less env a ratio \<longrightarrow>
              cw = int_of_float env (float_mul env (float_of_int env h) a) \<and> ch = h) \<and>
           (\<not> float_eq env a ratio \<and> \<not> float_less env a ratio \<longrightarrow>
              cw = w \<and> ch = int_of_float env (float_div env (float_of_int env w) a))"
  using assms by (simp add: processResizeDisplay_def Let_def)

lemma stoi_resolutions:
  "stoi ''1000'' = Inr 1000" "stoi ''700'' = Inr 700" "stoi ''800'' = Inr 800"
  "stoi ''600'' = Inr 600" "stoi ''1001'' = Inr 1001" "stoi ''525'' = Inr 525"
  by (simp_all add: stoi_def strtol_parse_def c_str_def isspace_def isdigit_def digits_value_def
      INT_MIN_def INT_MAX_def)

lemma sample_aspectRatio: "aspectRatio (myrtille sample_wfc) = 4 / 3"
  by (simp add: sample_wfc_def wf_myrtille_start_def sample_settings_def sample_env_def)

lemma floor_samples: "\<lfloor>2800 / 3 :: rat\<rfloor> = 933" "\<lfloor>1001 / 2 :: rat\<rfloor> = 500"
  using floor_divide_of_int_eq [of 2800 3, where ?'a = rat]
    floor_divide_of_int_eq [of 1001 2, where ?'a = rat]
  by simp_all

lemma sample_resize:
  "processResizeDisplay sample_env sample_wfc True ''1000x700'' =
     Inr (sample_wfc\<lparr>myrtille := (myrtille sample_wfc)\<lparr>clientWidth := 933, clientHeight := 700\<rparr>\<rparr>)"
  "processResizeDisplay sample_env sample_wfc True ''800x600'' =
     Inr (sample_wfc\<lparr>myrtille := (myrtille sample_wfc)\<lparr>clientWidth := 800, clientHeight := 600\<rparr>\<rparr>)"
  "processResizeDisplay sample_env sample_wfc True ''700x1000'' =
     Inr (sample_wfc\<lparr>myrtille := (myrtille sample_wfc)\<lparr>clientWidth := 700, clientHeight := 525\<rparr>\<rparr>)"
  by (simp_all add: processResizeDisplay_def find_char_def stoi_resolutions sample_aspectRatio
      sample_env_float floor_samples Let_def)

theorem aspect_locked_resize_witness:
  "processResizeDisplay sample_env sample_wfc True ''800x600'' =
     Inr (sample_wfc\<lparr>myrtille := (myrtille sample_wfc)\<lparr>clientWidth := 800, clientHeight := 600\<rparr>\<rparr>) \<and>
   processResizeDisplay sample_env sample_wfc True ''1000x700'' =
     Inr (sample_wfc\<lparr>myrtille := (myrtille sample_wfc)\<lparr>clientWidth := 933, clientHeight := 700\<rparr>\<rparr>) \<and>
   processResizeDisplay sample_env sample_wfc True ''700x1000'' =
     Inr (sample_wfc\<lparr>myrtille := (myrtille sample_wfc)\<lparr>clientWidth := 700, clientHeight := 525\<rparr>\<rparr>)"
proof (intro conjI)
  have a: "4 / 3 = aspectRatio (myrtille sample_wfc)"
    by (simp add: sample_aspectRatio)
  have "find_char ''800x600'' CHR ''x'' = Some 3" "stoi (take 3 ''800x600'') = Inr 800"
    "stoi (drop (3 + 1) ''800x600'') = Inr 600"
    by (simp_all add: find_char_def stoi_resolutions)
  from aspect_locked_resize [OF this a refl, of sample_env]
  show "processResizeDisplay sample_env sample_wfc True ''800x600'' =
     Inr (sample_wfc\<lparr>myrtille := (myrtille sample_wfc)\<lparr>clientWidth := 800, clientHeight := 600\<rparr>\<rparr>)"
    by (auto simp: sample_env_float)
  have "find_char ''1000x700'' CHR ''x'' = Some 4" "stoi (take 4 ''1000x700'') = Inr 1000"
    "stoi (drop (4 + 1) ''1000x700'') = Inr 700"
    by (simp_all add: find_char_def stoi_resolutions)
  from aspect_locked_resize [OF this a refl, of sample_env]
  show "processResizeDisplay sample_env sample_wfc True ''1000x700'' =
     Inr (sample_wfc\<lparr>myrtille := (myrtille sample_wfc)\<lparr>clientWidth := 933, clientHeight := 700\<rparr>\<rparr>)"
    by (auto simp: sample_env_float floor_samples)
  have "find_char ''700x1000'' CHR ''x'' = Some 3" "stoi (take 3 ''700x1000'') = Inr 700"
    "stoi (drop (3 + 1) ''700x1000'') = Inr 1000"
    by (simp_all add: find_char_def stoi_resolutions)
  from aspect_locked_resize [OF this a refl, of sample_env]
  show "processResizeDisplay sample_env sample_wfc True ''700x1000'' =
     Inr (sample_wfc\<lparr>myrtille := (myrtille sample_wfc)\<lparr>clientWidth := 700, clientHeight := 525\<rparr>\<rparr>)"
    by (auto simp: sample_env_float)
qed

lemma sample_commandMap_SCA: "commandMap (myrtille sample_wfc) ''SCA'' = Some SET_SCALE_DISPLAY"
  by (simp add: sample_wfc_def wf_myrtille_start_def sample_settings_def calloc_wf_myrtille_def)

lemma split_sample: "split ''1|1000x700'' CHR ''|'' = [''1'', ''1000x700'']"
  by (simp add: split_def)

text \<open>
  Claim C9 as it was stated has the result always satisfy \<open>width / height = a\<close>. The
  conversion to \<^verbatim>\<open>int\<close> truncates. In the sample session, whose ratio is that of 1024 to
  768, the request \<open>1000x700\<close> (also as the argument \<open>1|1000x700\<close> of the command \<open>SCA\<close>)
  gives 933 by 700, and the quotient of 933 and 700 is not the ratio. With the ratio 2, the
  request \<open>1001x1000\<close> gives 1001 by 500: here the division of 1001 by 2 is exact in single
  precision as well, and no rounding of 1001 / 500 gives 2.
\<close>

theorem aspect_ratio_counterexample:
  "aspectRatio (myrtille sample_wfc) = 4 / 3 \<and>
   map_sum id (\<lambda>wfc'. (clientWidth (myrtille wfc'), clientHeight (myrtille wfc')))
     (processResizeDisplay sample_env sample_wfc True ''1000x700'') = Inr (933, 700) \<and>
   map_sum id (\<lambda>wfc'. (clientWidth (myrtille wfc'), clientHeight (myrtille wfc')))
     (processMessage sample_env sample_wfc ''SCA1|1000x700'') = Inr (933, 700) \<and>
   \<not> float_eq sample_env
       (float_div sample_env (float_of_int sample_env 933) (float_of_int sample_env 700))
       (aspectRatio (myrtille sample_wfc)) \<and>
   aspectRatio (myrtille (sample_wfc\<lparr>myrtille := (myrtille sample_wfc)\<lparr>aspectRatio := 2\<rparr>\<rparr>)) = 2 \<and>
   map_sum id (\<lambda>wfc'. (clientWidth (myrtille wfc'), clientHeight (myrtille wfc')))
     (processResizeDisplay sample_env
        (sample_wfc\<lparr>myrtille := (myrtille sample_wfc)\<lparr>aspectRatio := 2\<rparr>\<rparr>) True ''1001x1000'') =
     Inr (1001, 500) \<and>
   \<not> float_eq sample_env
       (float_div sample_env (float_of_int sample_env 1001) (float_of_int sample_env 500)) 2"
proof -
  have l: "length ''SCA'' = 3" by simp
  have m: "processMessage sample_env sample_wfc (''SCA'' @ ''1|1000x700'') =
      dispatch sample_env sample_wfc SET_SCALE_DISPLAY ''1|1000x700''"
    by (rule processMessage_known [OF sample_commandMap_SCA l])
  have r: "processResizeDisplay sample_env
        (sample_wfc\<lparr>myrtille := (myrtille sample_wfc)\<lparr>scaleDisplay := True\<rparr>\<rparr>) True ''1000x700'' =
     Inr (sample_wfc\<lparr>myrtille := (myrtille sample_wfc)\<lparr>scaleDisplay := True,
            clientWidth := 933, clientHeight := 700\<rparr>\<rparr>)"
    by (simp add: processResizeDisplay_def find_char_def stoi_resolutions sample_aspectRatio
        sample_env_float floor_samples Let_def)
  have c: "map_sum id (\<lambda>wfc'. (clientWidth (myrtille wfc'), clientHeight (myrtille wfc')))
     (processMessage sample_env sample_wfc ''SCA1|1000x700'') = Inr (933, 700)"
    using m by (simp add: resize_from_args_def split_sample r sendMessage_def
        WriteFile_updatesPipe_def Let_def)
  have w: "processResizeDisplay sample_env
        (sample_wfc\<lparr>myrtille := (myrtille sample_wfc)\<lparr>aspectRatio := 2\<rparr>\<rparr>) True ''1001x1000'' =
     Inr (sample_wfc\<lparr>myrtille := (myrtille sample_wfc)\<lparr>aspectRatio := 2,
            clientWidth := 1001, clientHeight := 500\<rparr>\<rparr>)"
    by (simp add: processResizeDisplay_def find_char_def stoi_resolutions
        sample_env_float floor_samples Let_def)
  show ?thesis
    by (simp add: sample_resize(1) c w sample_aspectRatio sample_env_float)
qed

end
